theory Spec2Isabelle
  imports Main
begin

section \<open>Entity model (database.py, classes Playlist, Track, Stream)\<close>

text \<open>
  An ORM object is identified by its primary key: the session's identity map holds one
  Python object per row, and Python's \<open>None\<close> is the absent handle. The manager hands
  playlist objects to \<open>session.merge\<close> and \<open>session.delete\<close>, which resolve them by
  primary key, and compares and stores them; a handle to a playlist is its \<open>id\<close>. Of a
  track it also reads the collection \<open>track.playlists\<close>, which the ORM loads through
  the session the object belongs to, so a handle to a track carries, next to the \<open>id\<close>,
  the epoch of the session that loaded it: a track object loaded before
  \<open>Session.close()\<close> is detached, and its epoch is no longer the session's. The
  relationship \<open>Track.playlists\<close> is the Python list the manager reads, appends to and
  removes from; \<open>Playlist.tracks\<close> is its back-populated mirror.
\<close>

type_synonym handle = int

type_synonym track_handle = "nat \<times> int"

record playlist =
  pl_id :: int
  pl_title :: string
  pl_description :: string
  pl_date_created :: int
  pl_downloaded :: bool

record stream =
  st_id :: int
  st_url :: "string option"

record track =
  tr_id :: int
  tr_title :: string
  tr_artist :: string
  tr_album :: string
  tr_duration :: int
  tr_path :: "string option"
  tr_stream_id :: "int option"
  tr_liked :: bool
  tr_cover_art_url :: "string option"
  tr_playlists :: "handle list"

text \<open>Python truthiness of an optional string and of an optional integer.\<close>

definition truthy_str :: "string option \<Rightarrow> bool" where
  "truthy_str s = (case s of None \<Rightarrow> False | Some x \<Rightarrow> x \<noteq> [])"

definition truthy_int :: "int option \<Rightarrow> bool" where
  "truthy_int i = (case i of None \<Rightarrow> False | Some x \<Rightarrow> x \<noteq> 0)"

text \<open>
  The integers SQLite stores: signed 64-bit. A Python integer outside this range, given
  as a query parameter, makes the driver raise \<open>OverflowError\<close>.
\<close>

definition in_int64 :: "int \<Rightarrow> bool" where
  "in_int64 i \<longleftrightarrow> - (2 ^ 63) \<le> i \<and> i < 2 ^ 63"

text \<open>
  \<open>Playlist.__init__\<close>: a missing or empty description becomes the empty string. The
  primary key is assigned by the store when the object is flushed; the constructors
  here take it as their first argument.
\<close>

definition Playlist_init :: "int \<Rightarrow> string \<Rightarrow> int \<Rightarrow> bool \<Rightarrow> string option \<Rightarrow> playlist" where
  "Playlist_init pid title date_created downloaded description =
     \<lparr>pl_id = pid, pl_title = title,
      pl_description = (if \<not> truthy_str description then [] else the description),
      pl_date_created = date_created, pl_downloaded = downloaded\<rparr>"

definition Stream_init :: "int \<Rightarrow> string option \<Rightarrow> stream" where
  "Stream_init sid url = \<lparr>st_id = sid, st_url = url\<rparr>"

text \<open>
  \<open>Track.__init__\<close>: with a truthy path the track keeps the path and owns no stream;
  otherwise a \<open>Stream\<close> is constructed from \<open>stream_url\<close> and attached.
\<close>

definition Track_init ::
  "int \<Rightarrow> int \<Rightarrow> string \<Rightarrow> string \<Rightarrow> string \<Rightarrow> int \<Rightarrow> handle list \<Rightarrow> bool \<Rightarrow>
   string option \<Rightarrow> string option \<Rightarrow> string option \<Rightarrow> track \<times> stream option" where
  "Track_init tid sid title artist album duration playlists liked path stream_url cover_art_url =
     (if truthy_str path then
        (\<lparr>tr_id = tid, tr_title = title, tr_artist = artist, tr_album = album,
          tr_duration = duration, tr_path = path, tr_stream_id = None, tr_liked = liked,
          tr_cover_art_url = cover_art_url, tr_playlists = playlists\<rparr>, None)
      else
        (\<lparr>tr_id = tid, tr_title = title, tr_artist = artist, tr_album = album,
          tr_duration = duration, tr_path = None, tr_stream_id = Some sid, tr_liked = liked,
          tr_cover_art_url = cover_art_url, tr_playlists = playlists\<rparr>,
         Some (Stream_init sid stream_url)))"

section \<open>Store and session\<close>

text \<open>
  The three tables in row order. The association table \<open>playlist_track\<close> is carried by
  the \<open>tr_playlists\<close> collections: one association row per list entry.
\<close>

record tables =
  playlist_tbl :: "playlist list"
  track_tbl :: "track list"
  stream_tbl :: "stream list"

text \<open>
  A \<open>PlaylistManager\<close> owns one session. \<open>session\<close> is the object graph the session
  works on (queries autoflush, so they see it); \<open>persisted\<close> is what the last commit
  wrote to the store file; \<open>commits\<close> counts the commits. \<open>closed\<close> records that
  \<open>Session.close()\<close> has been called on the current session object, \<open>is_active\<close>
  is the session attribute of that name read by \<open>open_session\<close>, and \<open>epoch\<close> counts
  how often the session's objects have been released: the track objects loaded in an
  earlier epoch are detached.
\<close>

record manager =
  session :: tables
  persisted :: tables
  commits :: nat
  closed :: bool
  is_active :: bool
  epoch :: nat

datatype error =
    AttributeError
  | OverflowError
  | DetachedInstanceError
  | StaleInstance

text \<open>
  \<open>AttributeError\<close> is what Python raises on \<open>None.playlists\<close>; \<open>OverflowError\<close> is raised
  for an id parameter outside the 64-bit range; \<open>DetachedInstanceError\<close> is what the ORM
  raises when \<open>playlists\<close> has to be loaded for a detached track (the collection of a
  detached track is taken as not loaded, which it is after any commit). \<open>StaleInstance\<close>
  marks an operation on a handle that does not resolve to a row of the session (an
  instance that was deleted or never added): database.py does not say what happens
  there, the model stops with this marker, and the properties below are stated for
  handles that resolve.

  An exception leaves behind whatever the operation had already done, so every
  operation returns the manager together with its result or error.
\<close>

type_synonym 'a outcome = "(error + 'a) \<times> manager"

definition ret :: "'a \<Rightarrow> manager \<Rightarrow> 'a outcome" where
  "ret x m = (Inr x, m)"

definition raise :: "error \<Rightarrow> manager \<Rightarrow> 'a outcome" where
  "raise e m = (Inl e, m)"

definition then_op ::
  "(manager \<Rightarrow> 'a outcome) \<Rightarrow> ('a \<Rightarrow> manager \<Rightarrow> 'b outcome) \<Rightarrow> manager \<Rightarrow> 'b outcome" where
  "then_op f g m = (case f m of (Inl e, m') \<Rightarrow> (Inl e, m') | (Inr x, m') \<Rightarrow> g x m')"

text \<open>
  Primary keys are SQLite row ids: a new row gets the largest id in the table plus
  one, and \<open>1\<close> in an empty table.
\<close>

definition next_id :: "int list \<Rightarrow> int" where
  "next_id ids = (case ids of [] \<Rightarrow> 1 | x # xs \<Rightarrow> fold max xs x + 1)"

text \<open>\<open>session.query(C).filter_by(...).first()\<close>: the first row in table order, or \<open>None\<close>.\<close>

definition query_playlist_by_title :: "string \<Rightarrow> manager \<Rightarrow> handle option" where
  "query_playlist_by_title title m =
     map_option pl_id (find (\<lambda>r. pl_title r = title) (playlist_tbl (session m)))"

definition query_track_by_title :: "string \<Rightarrow> manager \<Rightarrow> track_handle option" where
  "query_track_by_title title m =
     map_option (\<lambda>r. (epoch m, tr_id r))
       (find (\<lambda>r. tr_title r = title) (track_tbl (session m)))"

definition query_track_by_id :: "int \<Rightarrow> manager \<Rightarrow> track_handle option" where
  "query_track_by_id i m =
     map_option (\<lambda>r. (epoch m, tr_id r))
       (find (\<lambda>r. tr_id r = i) (track_tbl (session m)))"

text \<open>
  Resolving a handle to the object's current attributes. Reading a track's attributes
  needs the track to belong to the session as it is now; \<open>session.merge\<close> resolves its
  argument by primary key alone.
\<close>

definition lookup_track :: "track_handle \<Rightarrow> manager \<Rightarrow> track option" where
  "lookup_track h m =
     (if fst h = epoch m then find (\<lambda>r. tr_id r = snd h) (track_tbl (session m)) else None)"

definition session_merge_track :: "track_handle \<Rightarrow> manager \<Rightarrow> track option" where
  "session_merge_track h m = find (\<lambda>r. tr_id r = snd h) (track_tbl (session m))"

definition lookup_playlist :: "handle \<Rightarrow> manager \<Rightarrow> playlist option" where
  "lookup_playlist h m = find (\<lambda>r. pl_id r = h) (playlist_tbl (session m))"

text \<open>Attribute assignment on the object with a given primary key.\<close>

definition update_track :: "int \<Rightarrow> (track \<Rightarrow> track) \<Rightarrow> manager \<Rightarrow> manager" where
  "update_track k f m =
     m\<lparr>session := (session m)\<lparr>track_tbl :=
          map (\<lambda>r. if tr_id r = k then f r else r) (track_tbl (session m))\<rparr>\<rparr>"

definition update_playlist :: "handle \<Rightarrow> (playlist \<Rightarrow> playlist) \<Rightarrow> manager \<Rightarrow> manager" where
  "update_playlist h f m =
     m\<lparr>session := (session m)\<lparr>playlist_tbl :=
          map (\<lambda>r. if pl_id r = h then f r else r) (playlist_tbl (session m))\<rparr>\<rparr>"

text \<open>\<open>session.add\<close> of a new playlist, and of a new track together with its stream.\<close>

definition session_add_playlist :: "playlist \<Rightarrow> manager \<Rightarrow> manager" where
  "session_add_playlist p m =
     m\<lparr>session := (session m)\<lparr>playlist_tbl := playlist_tbl (session m) @ [p]\<rparr>\<rparr>"

definition session_add_track :: "track \<Rightarrow> stream option \<Rightarrow> manager \<Rightarrow> manager" where
  "session_add_track t s m =
     m\<lparr>session := (session m)\<lparr>
          track_tbl := track_tbl (session m) @ [t],
          stream_tbl := stream_tbl (session m) @ (case s of None \<Rightarrow> [] | Some x \<Rightarrow> [x])\<rparr>\<rparr>"

text \<open>
  \<open>session.delete(playlist)\<close>: the row goes, and with it the rows of the association
  table that name it (the ORM maintains the \<open>secondary\<close> table of a relationship);
  no track row is deleted, the relationship declares no delete cascade.
\<close>

definition session_delete_playlist :: "handle \<Rightarrow> manager \<Rightarrow> manager" where
  "session_delete_playlist h m =
     m\<lparr>session := (session m)\<lparr>
          playlist_tbl := filter (\<lambda>r. pl_id r \<noteq> h) (playlist_tbl (session m)),
          track_tbl := map (\<lambda>t. t\<lparr>tr_playlists := removeAll h (tr_playlists t)\<rparr>)
                           (track_tbl (session m))\<rparr>\<rparr>"

text \<open>\<open>session.commit()\<close>: the session's state becomes the persisted state.\<close>

definition session_commit :: "manager \<Rightarrow> manager" where
  "session_commit m = m\<lparr>persisted := session m, commits := Suc (commits m)\<rparr>"


section \<open>PlaylistManager\<close>

text \<open>
  \<open>__init__\<close>: \<open>create_all\<close> creates missing tables and inserts no row; then a session
  is opened on the store. The argument is the content of the store file.
\<close>

definition empty_tables :: tables where
  "empty_tables = \<lparr>playlist_tbl = [], track_tbl = [], stream_tbl = []\<rparr>"

definition PlaylistManager_init :: "tables \<Rightarrow> manager" where
  "PlaylistManager_init db =
     \<lparr>session = db, persisted = db, commits = 0, closed = False, is_active = True,
      epoch = 0\<rparr>"

text \<open>
  \<open>get_track\<close>: the title is looked up when it is truthy, else the id when it is truthy.
  The id is a parameter of the query, and one outside the 64-bit range raises.
\<close>

definition get_track ::
  "string option \<Rightarrow> int option \<Rightarrow> manager \<Rightarrow> track_handle option outcome" where
  "get_track title ident m =
     (if truthy_str title then ret (query_track_by_title (the title) m) m
      else if truthy_int ident then
        (if in_int64 (the ident) then ret (query_track_by_id (the ident) m) m
         else raise OverflowError m)
      else ret None m)"

definition get_playlist :: "string \<Rightarrow> manager \<Rightarrow> handle option outcome" where
  "get_playlist title m = ret (query_playlist_by_title title m) m"

text \<open>
  \<open>get_or_create_playlist\<close>; \<open>now\<close> is the value of \<open>datetime.now()\<close>. An ORM object is
  always truthy, so \<open>if playlist:\<close> tests for \<open>None\<close>.
\<close>

definition get_or_create_playlist :: "string \<Rightarrow> int \<Rightarrow> manager \<Rightarrow> handle outcome" where
  "get_or_create_playlist title now =
     then_op (get_playlist title) (\<lambda>playlist.
       case playlist of
         Some h \<Rightarrow> ret h
       | None \<Rightarrow> (\<lambda>m.
           let pid = next_id (map pl_id (playlist_tbl (session m)));
               new = Playlist_init pid title now False None
           in ret pid (session_commit (session_add_playlist new m))))"

definition playlist_exists :: "string \<Rightarrow> manager \<Rightarrow> bool outcome" where
  "playlist_exists title =
     then_op (get_playlist title) (\<lambda>playlist. ret (playlist \<noteq> None))"

text \<open>
  \<open>get_or_create_track\<close>: the lookup passes the title only; a falsy \<open>cover_art_url\<close>
  is stored as the empty string; the track is built with \<open>playlists=[]\<close>, no path and
  the given stream URL. The duration is stored as given; the statements below that
  say a creation returns take it in the 64-bit range.
\<close>

definition get_or_create_track ::
  "string \<Rightarrow> string \<Rightarrow> string \<Rightarrow> int \<Rightarrow> string \<Rightarrow> string option \<Rightarrow> manager \<Rightarrow>
   track_handle outcome" where
  "get_or_create_track title artist album duration stream_url cover_art_url =
     then_op (get_track (Some title) None) (\<lambda>track.
       case track of
         Some h \<Rightarrow> ret h
       | None \<Rightarrow> (\<lambda>m.
           let cover = (if \<not> truthy_str cover_art_url then Some [] else cover_art_url);
               tid = next_id (map tr_id (track_tbl (session m)));
               sid = next_id (map st_id (stream_tbl (session m)));
               (new, str) = Track_init tid sid title artist album duration [] False
                              None (Some stream_url) cover
           in ret (epoch m, tid) (session_commit (session_add_track new str m))))"

text \<open>
  The guarded mutators: \<open>if not x: return\<close> on a \<open>None\<close> operand, otherwise assign,
  \<open>session.merge\<close> and commit. Assigning an attribute loads nothing, and
  \<open>session.merge\<close>, like \<open>session.delete\<close>, finds the row by the primary key of the
  object it is given, whether or not the object is still attached to the session.
\<close>

definition add_track_cover_art ::
  "track_handle option \<Rightarrow> string \<Rightarrow> manager \<Rightarrow> unit outcome" where
  "add_track_cover_art track cover_art_url m =
     (case track of
        None \<Rightarrow> ret () m
      | Some h \<Rightarrow>
          (case session_merge_track h m of
             None \<Rightarrow> raise StaleInstance m
           | Some _ \<Rightarrow>
               ret () (session_commit
                 (update_track (snd h) (\<lambda>r. r\<lparr>tr_cover_art_url := Some cover_art_url\<rparr>) m))))"

definition rename_playlist :: "handle option \<Rightarrow> string \<Rightarrow> manager \<Rightarrow> unit outcome" where
  "rename_playlist playlist new_title m =
     (case playlist of
        None \<Rightarrow> ret () m
      | Some h \<Rightarrow>
          (case lookup_playlist h m of
             None \<Rightarrow> raise StaleInstance m
           | Some _ \<Rightarrow>
               ret () (session_commit
                 (update_playlist h (\<lambda>r. r\<lparr>pl_title := new_title\<rparr>) m))))"

definition edit_playlist_description :: "handle option \<Rightarrow> string \<Rightarrow> manager \<Rightarrow> unit outcome" where
  "edit_playlist_description playlist new_description m =
     (case playlist of
        None \<Rightarrow> ret () m
      | Some h \<Rightarrow>
          (case lookup_playlist h m of
             None \<Rightarrow> raise StaleInstance m
           | Some _ \<Rightarrow>
               ret () (session_commit
                 (update_playlist h (\<lambda>r. r\<lparr>pl_description := new_description\<rparr>) m))))"

definition delete_playlist :: "handle option \<Rightarrow> manager \<Rightarrow> unit outcome" where
  "delete_playlist playlist m =
     (case playlist of
        None \<Rightarrow> ret () m
      | Some h \<Rightarrow>
          (case lookup_playlist h m of
             None \<Rightarrow> raise StaleInstance m
           | Some _ \<Rightarrow> ret () (session_commit (session_delete_playlist h m))))"

text \<open>
  The membership operations read \<open>track.playlists\<close> first, with no guard: on \<open>None\<close> that
  is an \<open>AttributeError\<close>, on a detached track a \<open>DetachedInstanceError\<close>. The playlist
  operand is only compared and stored; it is a handle here (what a \<open>None\<close> inside a
  relationship collection does is the ORM's business, not database.py's).
\<close>

definition add_track_to_playlist ::
  "track_handle option \<Rightarrow> handle \<Rightarrow> manager \<Rightarrow> unit outcome" where
  "add_track_to_playlist track playlist m =
     (case track of
        None \<Rightarrow> raise AttributeError m
      | Some h \<Rightarrow>
          if fst h \<noteq> epoch m then raise DetachedInstanceError m
          else
          (case lookup_track h m of
             None \<Rightarrow> raise StaleInstance m
           | Some row \<Rightarrow>
               let playlists = tr_playlists row in
               if playlist \<in> set playlists then ret () m
               else ret () (session_commit
                      (update_track (snd h)
                         (\<lambda>r. r\<lparr>tr_playlists := playlists @ [playlist]\<rparr>) m))))"

definition remove_track_from_playlist ::
  "track_handle option \<Rightarrow> handle \<Rightarrow> manager \<Rightarrow> unit outcome" where
  "remove_track_from_playlist track playlist m =
     (case track of
        None \<Rightarrow> raise AttributeError m
      | Some h \<Rightarrow>
          if fst h \<noteq> epoch m then raise DetachedInstanceError m
          else
          (case lookup_track h m of
             None \<Rightarrow> raise StaleInstance m
           | Some row \<Rightarrow>
               let playlists = tr_playlists row in
               if playlist \<in> set playlists then
                 ret () (session_commit
                   (update_track (snd h)
                      (\<lambda>r. r\<lparr>tr_playlists := remove1 playlist playlists\<rparr>) m))
               else ret () m))"

definition create_and_add_track_to_playlist ::
  "string \<Rightarrow> string \<Rightarrow> string \<Rightarrow> int \<Rightarrow> string \<Rightarrow> handle \<Rightarrow> string option \<Rightarrow>
   manager \<Rightarrow> track_handle outcome" where
  "create_and_add_track_to_playlist title artist album duration stream_url playlist cover_art_url =
     then_op (get_or_create_track title artist album duration stream_url cover_art_url) (\<lambda>track.
     then_op (add_track_to_playlist (Some track) playlist) (\<lambda>_.
     ret track))"

definition add_track_to_liked_songs ::
  "track_handle option \<Rightarrow> int \<Rightarrow> manager \<Rightarrow> unit outcome" where
  "add_track_to_liked_songs track now =
     then_op (get_or_create_playlist ''Liked Songs'' now) (\<lambda>liked_songs_playlist.
     add_track_to_playlist track liked_songs_playlist)"

definition create_and_add_track_to_liked_songs ::
  "string \<Rightarrow> string \<Rightarrow> string \<Rightarrow> int \<Rightarrow> string \<Rightarrow> string option \<Rightarrow> int \<Rightarrow>
   manager \<Rightarrow> track_handle outcome" where
  "create_and_add_track_to_liked_songs title artist album duration stream_url cover_art_url now =
     then_op (get_or_create_playlist ''Liked Songs'' now) (\<lambda>liked_songs_playlist.
     create_and_add_track_to_playlist title artist album duration stream_url
       liked_songs_playlist cover_art_url)"

definition remove_track_from_liked_songs ::
  "track_handle option \<Rightarrow> int \<Rightarrow> manager \<Rightarrow> unit outcome" where
  "remove_track_from_liked_songs track now =
     then_op (get_or_create_playlist ''Liked Songs'' now) (\<lambda>liked_songs_playlist.
     remove_track_from_playlist track liked_songs_playlist)"

text \<open>
  \<open>track_is_liked\<close>: Python evaluates the left operand of \<open>in\<close> first, so the playlist
  is fetched or created before \<open>track.playlists\<close> is read.
\<close>

definition track_is_liked :: "track_handle option \<Rightarrow> int \<Rightarrow> manager \<Rightarrow> bool outcome" where
  "track_is_liked track now =
     then_op (get_or_create_playlist ''Liked Songs'' now) (\<lambda>liked_songs_playlist m.
       case track of
         None \<Rightarrow> raise AttributeError m
       | Some h \<Rightarrow>
           if fst h \<noteq> epoch m then raise DetachedInstanceError m
           else
           (case lookup_track h m of
              None \<Rightarrow> raise StaleInstance m
            | Some row \<Rightarrow> ret (liked_songs_playlist \<in> set (tr_playlists row)) m))"


definition commit_session :: "manager \<Rightarrow> unit outcome" where
  "commit_session m = ret () (session_commit m)"


text \<open>
  The derived accessors of \<open>Playlist\<close>: \<open>tracks\<close> is the back-populated side of
  \<open>Track.playlists\<close>, \<open>get_length\<close> its length, \<open>get_total_duration\<close> the sum of the
  durations. They are methods of the playlist object and answer from its collection;
  for a playlist that is in the store that is the collection the store gives. For a
  handle that does not resolve (a deleted playlist) the object answers from whatever
  it had loaded, which the store does not determine: the result is \<open>None\<close> here.
\<close>

definition playlist_tracks :: "handle \<Rightarrow> manager \<Rightarrow> track list" where
  "playlist_tracks h m =
     concat (map (\<lambda>t. map (\<lambda>_. t) (filter (\<lambda>p. p = h) (tr_playlists t)))
                 (track_tbl (session m)))"

definition get_length :: "handle \<Rightarrow> manager \<Rightarrow> nat option" where
  "get_length h m =
     (case lookup_playlist h m of
        None \<Rightarrow> None
      | Some _ \<Rightarrow> Some (length (playlist_tracks h m)))"




section \<open>A concrete store\<close>

text \<open>
  A store with one playlist and two tracks, the second with an empty title; it is what
  three calls of the manager build from an empty store (lemma \<open>example_reached\<close>).
\<close>

definition song_a :: track where
  "song_a = \<lparr>tr_id = 1, tr_title = ''Song A'', tr_artist = ''Artist A'', tr_album = ''Album A'',
     tr_duration = 200, tr_path = None, tr_stream_id = Some 1, tr_liked = False,
     tr_cover_art_url = Some [], tr_playlists = []\<rparr>"

definition untitled :: track where
  "untitled = \<lparr>tr_id = 2, tr_title = [], tr_artist = ''Artist B'', tr_album = ''Album B'',
     tr_duration = 245, tr_path = None, tr_stream_id = Some 2, tr_liked = False,
     tr_cover_art_url = Some [], tr_playlists = []\<rparr>"

definition mix :: playlist where
  "mix = \<lparr>pl_id = 1, pl_title = ''Mix'', pl_description = [], pl_date_created = 0,
     pl_downloaded = False\<rparr>"

definition example_db :: tables where
  "example_db = \<lparr>playlist_tbl = [mix], track_tbl = [song_a, untitled],
     stream_tbl = [Stream_init 1 (Some ''http://stream/a''), Stream_init 2 (Some ''http://stream/b'')]\<rparr>"

definition example_manager :: manager where
  "example_manager = PlaylistManager_init example_db"

section \<open>Commit discipline\<close>

text \<open>
  What an operation leaves behind, from the manager \<open>m\<close> it started on: either nothing
  was touched, or it has committed since and the persisted state is the session's, so
  that none of its work is left pending.
\<close>

definition committed_or_unchanged :: "manager \<Rightarrow> manager \<Rightarrow> bool" where
  "committed_or_unchanged m m' \<longleftrightarrow>
     m' = m \<or> (persisted m' = session m' \<and> commits m < commits m')"

section \<open>Being on a playlist of a given title\<close>

text \<open>
  A track is on a playlist titled \<open>t\<close> when some row of the playlist table has that
  title and its \<open>id\<close> is in the track's playlist list.
\<close>

definition on_playlist_titled :: "string \<Rightarrow> track \<Rightarrow> manager \<Rightarrow> bool" where
  "on_playlist_titled t row m \<longleftrightarrow>
     list_ex (\<lambda>r. pl_title r = t \<and> pl_id r \<in> set (tr_playlists row))
       (playlist_tbl (session m))"

section \<open>Auxiliary facts\<close>

lemma find_snoc:
  "find P (xs @ [x]) = (case find P xs of None \<Rightarrow> (if P x then Some x else None) | Some y \<Rightarrow> Some y)"
  by (induction xs) auto

lemma fold_max_ge: "(a::int) \<le> fold max xs a"
  by (induction xs arbitrary: a) (auto intro: order_trans [OF max.cobounded2])

lemma fold_max_mem: "(x::int) \<in> set xs \<Longrightarrow> x \<le> fold max xs a"
proof (induction xs arbitrary: a)
  case Nil
  then show ?case by simp
next
  case (Cons y ys)
  show ?case
  proof (cases "x = y")
    case True
    have "y \<le> max y a" by simp
    also have "\<dots> \<le> fold max ys (max y a)" by (rule fold_max_ge)
    finally show ?thesis using True by simp
  next
    case False
    with Cons.prems have "x \<in> set ys" by simp
    then show ?thesis using Cons.IH by simp
  qed
qed

lemma next_id_fresh: "x \<in> set ids \<Longrightarrow> x < next_id ids"
proof (cases ids)
  case Nil
  assume "x \<in> set ids"
  with Nil show ?thesis by simp
next
  case (Cons y ys)
  assume "x \<in> set ids"
  with Cons have "x = y \<or> x \<in> set ys" by simp
  then have "x \<le> fold max ys y"
    using fold_max_ge [of y ys] fold_max_mem [of x ys y] by auto
  then show ?thesis using Cons by (simp add: next_id_def)
qed

lemma get_or_create_playlist_found:
  "query_playlist_by_title t m = Some h \<Longrightarrow> get_or_create_playlist t now m = (Inr h, m)"
  by (simp add: get_or_create_playlist_def get_playlist_def then_op_def ret_def)

lemma get_or_create_playlist_new:
  assumes "query_playlist_by_title t m = None"
  shows "get_or_create_playlist t now m =
           (Inr (next_id (map pl_id (playlist_tbl (session m)))),
            session_commit (session_add_playlist
              (Playlist_init (next_id (map pl_id (playlist_tbl (session m)))) t now False None) m))"
  using assms
  by (simp add: get_or_create_playlist_def get_playlist_def then_op_def ret_def Let_def)

lemma session_commit_session [simp]: "session (session_commit m) = session m"
  by (simp add: session_commit_def)

lemma query_after_add_playlist:
  assumes "query_playlist_by_title t m = None"
  shows "query_playlist_by_title t
           (session_commit (session_add_playlist (Playlist_init pid t now d desc) m)) = Some pid"
  using assms
  by (simp add: query_playlist_by_title_def session_add_playlist_def find_snoc Playlist_init_def)

section \<open>Properties of the manager\<close>

text \<open>
  C1. For every title, \<open>get_or_create_playlist\<close> called twice in succession returns the
  same playlist handle both times, and the second call leaves the manager exactly as
  the first one left it: no second row is created. After the two calls the table holds
  as many playlists of that title as before, and one if it held none.
\<close>

theorem get_or_create_playlist_idempotent:
  "(\<exists>h. get_or_create_playlist t now1 m = (Inr h, snd (get_or_create_playlist t now1 m))
      \<and> get_or_create_playlist t now2 (snd (get_or_create_playlist t now1 m)) =
          (Inr h, snd (get_or_create_playlist t now1 m)))
   \<and> length (filter (\<lambda>r. pl_title r = t)
        (playlist_tbl (session (snd (get_or_create_playlist t now2
           (snd (get_or_create_playlist t now1 m))))))) =
     max 1 (length (filter (\<lambda>r. pl_title r = t) (playlist_tbl (session m))))"
proof (cases "query_playlist_by_title t m")
  case None
  let ?pid = "next_id (map pl_id (playlist_tbl (session m)))"
  let ?m1 = "session_commit (session_add_playlist (Playlist_init ?pid t now1 False None) m)"
  have first: "get_or_create_playlist t now1 m = (Inr ?pid, ?m1)"
    using None by (rule get_or_create_playlist_new)
  have "query_playlist_by_title t ?m1 = Some ?pid"
    using None by (rule query_after_add_playlist)
  then have second: "get_or_create_playlist t now2 ?m1 = (Inr ?pid, ?m1)"
    by (rule get_or_create_playlist_found)
  have "filter (\<lambda>r. pl_title r = t) (playlist_tbl (session m)) = []"
    using None by (auto simp: query_playlist_by_title_def find_None_iff filter_empty_conv)
  then have "length (filter (\<lambda>r. pl_title r = t) (playlist_tbl (session ?m1))) =
             max 1 (length (filter (\<lambda>r. pl_title r = t) (playlist_tbl (session m))))"
    by (simp add: session_add_playlist_def Playlist_init_def)
  with first second show ?thesis by simp
next
  case (Some h)
  then have first: "get_or_create_playlist t now1 m = (Inr h, m)"
    and second: "get_or_create_playlist t now2 m = (Inr h, m)"
    by (rule get_or_create_playlist_found)+
  from Some obtain r where "find (\<lambda>r. pl_title r = t) (playlist_tbl (session m)) = Some r"
    by (auto simp: query_playlist_by_title_def)
  then have "r \<in> set (filter (\<lambda>r. pl_title r = t) (playlist_tbl (session m)))"
    by (auto simp: find_Some_iff)
  then have "0 < length (filter (\<lambda>r. pl_title r = t) (playlist_tbl (session m)))"
    by (rule length_pos_if_in_set)
  then have "length (filter (\<lambda>r. pl_title r = t) (playlist_tbl (session m))) =
             max 1 (length (filter (\<lambda>r. pl_title r = t) (playlist_tbl (session m))))"
    by linarith
  with first second show ?thesis by simp
qed

lemma example_reached:
  "snd (get_or_create_track [] ''Artist B'' ''Album B'' 245 ''http://stream/b'' None
     (snd (get_or_create_track ''Song A'' ''Artist A'' ''Album A'' 200 ''http://stream/a'' None
       (snd (get_or_create_playlist ''Mix'' 0 (PlaylistManager_init empty_tables))))))
   = example_manager\<lparr>commits := 3\<rparr>"
  by (simp add: get_or_create_track_def get_or_create_playlist_def get_playlist_def get_track_def
      then_op_def ret_def truthy_str_def truthy_int_def query_track_by_title_def
      query_playlist_by_title_def session_commit_def session_add_track_def
      session_add_playlist_def PlaylistManager_init_def empty_tables_def Track_init_def
      Playlist_init_def Stream_init_def next_id_def example_manager_def example_db_def
      song_a_def untitled_def mix_def Let_def)

lemma find_update:
  assumes "\<And>r. tr_id (f r) = tr_id r"
  shows "find (\<lambda>r. tr_id r = k) (map (\<lambda>r. if tr_id r = k then f r else r) xs) =
         map_option f (find (\<lambda>r. tr_id r = k) xs)"
  by (induction xs) (auto simp: assms)

lemma lookup_track_attached: "lookup_track h m = Some row \<Longrightarrow> fst h = epoch m"
  by (simp add: lookup_track_def split: if_splits)

lemma lookup_track_update:
  assumes "\<And>r. tr_id (f r) = tr_id r"
  shows "lookup_track h (session_commit (update_track (snd h) f m)) =
         map_option f (lookup_track h m)"
  by (simp add: lookup_track_def update_track_def session_commit_def find_update [OF assms])

lemma add_track_to_playlist_member:
  assumes "lookup_track h m = Some row" and "p \<in> set (tr_playlists row)"
  shows "add_track_to_playlist (Some h) p m = (Inr (), m)"
  using assms lookup_track_attached [OF assms(1)]
  by (simp add: add_track_to_playlist_def ret_def)

lemma add_track_to_playlist_new:
  assumes "lookup_track h m = Some row" and "p \<notin> set (tr_playlists row)"
  shows "add_track_to_playlist (Some h) p m =
           (Inr (), session_commit
              (update_track (snd h) (\<lambda>r. r\<lparr>tr_playlists := tr_playlists row @ [p]\<rparr>) m))"
  using assms lookup_track_attached [OF assms(1)]
  by (simp add: add_track_to_playlist_def ret_def)

lemma remove_track_from_playlist_absent:
  assumes "lookup_track h m = Some row" and "p \<notin> set (tr_playlists row)"
  shows "remove_track_from_playlist (Some h) p m = (Inr (), m)"
  using assms lookup_track_attached [OF assms(1)]
  by (simp add: remove_track_from_playlist_def ret_def)

lemma remove_track_from_playlist_member:
  assumes "lookup_track h m = Some row" and "p \<in> set (tr_playlists row)"
  shows "remove_track_from_playlist (Some h) p m =
           (Inr (), session_commit
              (update_track (snd h) (\<lambda>r. r\<lparr>tr_playlists := remove1 p (tr_playlists row)\<rparr>) m))"
  using assms lookup_track_attached [OF assms(1)]
  by (simp add: remove_track_from_playlist_def ret_def)

text \<open>
  C2. For a track and a playlist, adding the track to the playlist a second time changes
  nothing: the second call returns at once and leaves the manager, and so the number of
  members of the playlist, as the first call left it. Removing a track from a playlist
  it is not a member of leaves the manager unchanged.
\<close>

theorem membership_set_semantics:
  assumes "lookup_track h m = Some row"
  shows "(\<exists>m1. add_track_to_playlist (Some h) p m = (Inr (), m1)
            \<and> add_track_to_playlist (Some h) p m1 = (Inr (), m1)
            \<and> get_length p (snd (add_track_to_playlist (Some h) p m1)) = get_length p m1
            \<and> (\<exists>row1. lookup_track h m1 = Some row1 \<and> p \<in> set (tr_playlists row1)))
       \<and> (p \<notin> set (tr_playlists row) \<longrightarrow>
            remove_track_from_playlist (Some h) p m = (Inr (), m))"
proof (intro conjI impI)
  show "\<exists>m1. add_track_to_playlist (Some h) p m = (Inr (), m1)
            \<and> add_track_to_playlist (Some h) p m1 = (Inr (), m1)
            \<and> get_length p (snd (add_track_to_playlist (Some h) p m1)) = get_length p m1
            \<and> (\<exists>row1. lookup_track h m1 = Some row1 \<and> p \<in> set (tr_playlists row1))"
  proof (cases "p \<in> set (tr_playlists row)")
    case True
    with assms have "add_track_to_playlist (Some h) p m = (Inr (), m)"
      by (rule add_track_to_playlist_member)
    with assms True show ?thesis by simp
  next
    case False
    let ?f = "\<lambda>r. r\<lparr>tr_playlists := tr_playlists row @ [p]\<rparr>"
    let ?m1 = "session_commit (update_track (snd h) ?f m)"
    from assms False have first: "add_track_to_playlist (Some h) p m = (Inr (), ?m1)"
      by (rule add_track_to_playlist_new)
    have look: "lookup_track h ?m1 = Some (?f row)"
      using assms by (simp add: lookup_track_update)
    have mem: "p \<in> set (tr_playlists (?f row))" by simp
    from look mem have second: "add_track_to_playlist (Some h) p ?m1 = (Inr (), ?m1)"
      by (rule add_track_to_playlist_member)
    from first second look mem show ?thesis by simp
  qed
next
  assume "p \<notin> set (tr_playlists row)"
  with assms show "remove_track_from_playlist (Some h) p m = (Inr (), m)"
    by (rule remove_track_from_playlist_absent)
qed

lemma example_lookup: "lookup_track (0, 1) example_manager = Some song_a"
  by (simp add: lookup_track_def example_manager_def PlaylistManager_init_def example_db_def
      song_a_def untitled_def)

theorem membership_set_semantics_witness:
  "lookup_track (0, 1) example_manager = Some song_a
   \<and> (\<exists>m1. add_track_to_playlist (Some (0, 1)) 1 example_manager = (Inr (), m1)
         \<and> add_track_to_playlist (Some (0, 1)) 1 m1 = (Inr (), m1)
         \<and> get_length 1 m1 = Some 1)
   \<and> 1 \<notin> set (tr_playlists song_a)
   \<and> remove_track_from_playlist (Some (0, 1)) 1 example_manager = (Inr (), example_manager)"
proof -
  have live: "lookup_track (0, 1) example_manager = Some song_a" by (rule example_lookup)
  have absent: "1 \<notin> set (tr_playlists song_a)" by (simp add: song_a_def)
  have len: "get_length 1 (session_commit
      (update_track 1 (\<lambda>r. r\<lparr>tr_playlists := tr_playlists song_a @ [1]\<rparr>) example_manager))
      = Some 1"
    by (simp add: get_length_def lookup_playlist_def playlist_tracks_def session_commit_def
        update_track_def example_manager_def PlaylistManager_init_def example_db_def
        song_a_def untitled_def mix_def)
  from membership_set_semantics [OF live, of 1] absent live len
  show ?thesis
    by (auto simp: add_track_to_playlist_new [OF live absent])
qed

text \<open>
  C7. \<open>rename_playlist\<close>, \<open>edit_playlist_description\<close>, \<open>delete_playlist\<close> and
  \<open>add_track_cover_art\<close> called with \<open>None\<close> as the entity return normally and leave the
  manager, session and persisted state alike, unchanged.
\<close>

theorem null_operand_noop:
  "rename_playlist None x m = (Inr (), m)
   \<and> edit_playlist_description None x m = (Inr (), m)
   \<and> delete_playlist None m = (Inr (), m)
   \<and> add_track_cover_art None x m = (Inr (), m)"
  by (simp add: rename_playlist_def edit_playlist_description_def delete_playlist_def
      add_track_cover_art_def ret_def)

lemma get_or_create_playlist_ok:
  "\<exists>h m'. get_or_create_playlist t now m = (Inr h, m')"
  by (cases "query_playlist_by_title t m")
     (simp_all add: get_or_create_playlist_def get_playlist_def then_op_def ret_def Let_def)

text \<open>
  C10. With \<open>None\<close> as the track, \<open>add_track_to_playlist\<close> and
  \<open>remove_track_from_playlist\<close>, and through them \<open>add_track_to_liked_songs\<close>,
  \<open>remove_track_from_liked_songs\<close> and \<open>track_is_liked\<close>, raise an error
  (\<open>AttributeError\<close>, on reading \<open>track.playlists\<close>) instead of returning silently.
\<close>

theorem null_track_raises:
  "add_track_to_playlist None p m = (Inl AttributeError, m)
   \<and> remove_track_from_playlist None p m = (Inl AttributeError, m)
   \<and> fst (add_track_to_liked_songs None now m) = Inl AttributeError
   \<and> fst (remove_track_from_liked_songs None now m) = Inl AttributeError
   \<and> fst (track_is_liked None now m) = Inl AttributeError"
proof -
  obtain h m' where goc: "get_or_create_playlist ''Liked Songs'' now m = (Inr h, m')"
    using get_or_create_playlist_ok by blast
  have "add_track_to_playlist None p m = (Inl AttributeError, m)"
    and "remove_track_from_playlist None p m = (Inl AttributeError, m)"
    by (simp_all add: add_track_to_playlist_def remove_track_from_playlist_def raise_def)
  moreover have "fst (add_track_to_liked_songs None now m) = Inl AttributeError"
    using goc by (simp add: add_track_to_liked_songs_def then_op_def add_track_to_playlist_def raise_def)
  moreover have "fst (remove_track_from_liked_songs None now m) = Inl AttributeError"
    using goc by (simp add: remove_track_from_liked_songs_def then_op_def
        remove_track_from_playlist_def raise_def)
  moreover have "fst (track_is_liked None now m) = Inl AttributeError"
    using goc by (simp add: track_is_liked_def then_op_def raise_def)
  ultimately show ?thesis by simp
qed

lemma get_track_by_title:
  "t \<noteq> [] \<Longrightarrow> get_track (Some t) i m = (Inr (query_track_by_title t m), m)"
  by (simp add: get_track_def truthy_str_def ret_def)

lemma get_track_by_id:
  "\<not> truthy_str title \<Longrightarrow> j \<noteq> 0 \<Longrightarrow> in_int64 j \<Longrightarrow>
   get_track title (Some j) m = (Inr (query_track_by_id j m), m)"
  by (simp add: get_track_def truthy_int_def ret_def)

lemma get_track_overflow:
  "\<not> truthy_str title \<Longrightarrow> j \<noteq> 0 \<Longrightarrow> \<not> in_int64 j \<Longrightarrow>
   get_track title (Some j) m = (Inl OverflowError, m)"
  by (simp add: get_track_def truthy_int_def raise_def)

lemma get_track_no_key:
  "\<not> truthy_str title \<Longrightarrow> \<not> truthy_int i \<Longrightarrow> get_track title i m = (Inr None, m)"
  by (simp add: get_track_def ret_def)

lemma get_track_state: "snd (get_track title i m) = m"
  by (simp add: get_track_def ret_def raise_def)

lemma query_track_by_title_first:
  "query_track_by_title t m = Some h \<longleftrightarrow>
     (\<exists>k < length (track_tbl (session m)).
        tr_title (track_tbl (session m) ! k) = t
        \<and> h = (epoch m, tr_id (track_tbl (session m) ! k))
        \<and> (\<forall>j < k. tr_title (track_tbl (session m) ! j) \<noteq> t))"
  by (auto simp: query_track_by_title_def find_Some_iff)

lemma query_track_by_id_first:
  "query_track_by_id i m = Some h \<longleftrightarrow>
     (\<exists>k < length (track_tbl (session m)).
        tr_id (track_tbl (session m) ! k) = i \<and> h = (epoch m, i)
        \<and> (\<forall>j < k. tr_id (track_tbl (session m) ! j) \<noteq> i))"
  by (auto simp: query_track_by_id_def find_Some_iff)

lemma query_track_by_title_none:
  "query_track_by_title t m = None \<longleftrightarrow> t \<notin> tr_title ` set (track_tbl (session m))"
  by (auto simp: query_track_by_title_def find_None_iff)

lemma query_track_by_id_none:
  "query_track_by_id i m = None \<longleftrightarrow> i \<notin> tr_id ` set (track_tbl (session m))"
  by (auto simp: query_track_by_id_def find_None_iff)

text \<open>
  C5, as stated, fails for the empty title. In the store of \<open>example_manager\<close> the first
  track with the title \<open>\<close> is track 2, and \<open>get_track(title=, id=1)\<close> returns
  track 1: the empty title is falsy, so the lookup goes by id.
\<close>

theorem get_track_empty_title_counterexample:
  "query_track_by_title [] example_manager = Some (0, 2)
   \<and> get_track (Some []) (Some 1) example_manager = (Inr (Some (0, 1)), example_manager)"
  by (simp add: get_track_def truthy_str_def truthy_int_def in_int64_def ret_def
      query_track_by_title_def query_track_by_id_def example_manager_def
      PlaylistManager_init_def example_db_def song_a_def untitled_def)

text \<open>
  C5, amended. With a non-empty title, \<open>get_track\<close> returns the first track in table
  order with that title, whatever the id argument. With no title or the empty title and
  an id other than \<open>0\<close> within the signed 64-bit range, it returns the first track with
  that id. In these cases, and when neither key is usable (title absent or empty, id
  absent or \<open>0\<close>), it returns normally, with \<open>None\<close> when no track matches the key it
  looked up. An id outside the 64-bit range, when it is the key looked up, raises
  \<open>OverflowError\<close>. The manager is left unchanged in every case.
\<close>

theorem get_track_lookup_priority:
  "(t \<noteq> [] \<longrightarrow>
      get_track (Some t) i m = (Inr (query_track_by_title t m), m)
      \<and> (\<forall>h. query_track_by_title t m = Some h \<longleftrightarrow>
            (\<exists>k < length (track_tbl (session m)).
               tr_title (track_tbl (session m) ! k) = t
               \<and> h = (epoch m, tr_id (track_tbl (session m) ! k))
               \<and> (\<forall>j < k. tr_title (track_tbl (session m) ! j) \<noteq> t)))
      \<and> (t \<notin> tr_title ` set (track_tbl (session m)) \<longrightarrow>
            get_track (Some t) i m = (Inr None, m)))
   \<and> (\<not> truthy_str title \<and> j \<noteq> 0 \<and> in_int64 j \<longrightarrow>
      get_track title (Some j) m = (Inr (query_track_by_id j m), m)
      \<and> (\<forall>h. query_track_by_id j m = Some h \<longleftrightarrow>
            (\<exists>k < length (track_tbl (session m)).
               tr_id (track_tbl (session m) ! k) = j \<and> h = (epoch m, j)
               \<and> (\<forall>l < k. tr_id (track_tbl (session m) ! l) \<noteq> j)))
      \<and> (j \<notin> tr_id ` set (track_tbl (session m)) \<longrightarrow>
            get_track title (Some j) m = (Inr None, m)))
   \<and> (\<not> truthy_str title \<and> j \<noteq> 0 \<and> \<not> in_int64 j \<longrightarrow>
      get_track title (Some j) m = (Inl OverflowError, m))
   \<and> (\<not> truthy_str title \<and> \<not> truthy_int i \<longrightarrow> get_track title i m = (Inr None, m))
   \<and> snd (get_track title i m) = m"
proof (intro conjI impI allI)
  assume "t \<noteq> []"
  then show "get_track (Some t) i m = (Inr (query_track_by_title t m), m)"
    by (rule get_track_by_title)
next
  fix h
  show "query_track_by_title t m = Some h \<longleftrightarrow>
            (\<exists>k < length (track_tbl (session m)).
               tr_title (track_tbl (session m) ! k) = t
               \<and> h = (epoch m, tr_id (track_tbl (session m) ! k))
               \<and> (\<forall>j < k. tr_title (track_tbl (session m) ! j) \<noteq> t))"
    by (rule query_track_by_title_first)
next
  assume "t \<noteq> []" and "t \<notin> tr_title ` set (track_tbl (session m))"
  then show "get_track (Some t) i m = (Inr None, m)"
    using get_track_by_title [of t i m] query_track_by_title_none [of t m] by simp
next
  assume "\<not> truthy_str title \<and> j \<noteq> 0 \<and> in_int64 j"
  then show "get_track title (Some j) m = (Inr (query_track_by_id j m), m)"
    using get_track_by_id by simp
next
  fix h
  show "query_track_by_id j m = Some h \<longleftrightarrow>
            (\<exists>k < length (track_tbl (session m)).
               tr_id (track_tbl (session m) ! k) = j \<and> h = (epoch m, j)
               \<and> (\<forall>l < k. tr_id (track_tbl (session m) ! l) \<noteq> j))"
    by (rule query_track_by_id_first)
next
  assume "\<not> truthy_str title \<and> j \<noteq> 0 \<and> in_int64 j"
    and "j \<notin> tr_id ` set (track_tbl (session m))"
  then show "get_track title (Some j) m = (Inr None, m)"
    using get_track_by_id [of title j m] query_track_by_id_none [of j m] by simp
next
  assume "\<not> truthy_str title \<and> j \<noteq> 0 \<and> \<not> in_int64 j"
  then show "get_track title (Some j) m = (Inl OverflowError, m)"
    using get_track_overflow by simp
next
  assume "\<not> truthy_str title \<and> \<not> truthy_int i"
  then show "get_track title i m = (Inr None, m)"
    using get_track_no_key by simp
next
  show "snd (get_track title i m) = m" by (rule get_track_state)
qed

theorem get_track_lookup_priority_witness:
  "''Song A'' \<noteq> []
   \<and> get_track (Some ''Song A'') (Some 2) example_manager = (Inr (Some (0, 1)), example_manager)
   \<and> ''Song Z'' \<notin> tr_title ` set (track_tbl (session example_manager))
   \<and> get_track (Some ''Song Z'') (Some 2) example_manager = (Inr None, example_manager)
   \<and> \<not> truthy_str (Some []) \<and> (2::int) \<noteq> 0 \<and> in_int64 2
   \<and> get_track (Some []) (Some 2) example_manager = (Inr (Some (0, 2)), example_manager)
   \<and> 7 \<notin> tr_id ` set (track_tbl (session example_manager)) \<and> in_int64 7
   \<and> get_track None (Some 7) example_manager = (Inr None, example_manager)
   \<and> \<not> in_int64 (2 ^ 63)
   \<and> get_track None (Some (2 ^ 63)) example_manager = (Inl OverflowError, example_manager)
   \<and> \<not> truthy_int (Some 0)
   \<and> get_track (Some []) (Some 0) example_manager = (Inr None, example_manager)"
proof -
  have tbl: "track_tbl (session example_manager) = [song_a, untitled]"
    and ep: "epoch example_manager = 0"
    by (simp_all add: example_manager_def PlaylistManager_init_def example_db_def)
  have q1: "query_track_by_title ''Song A'' example_manager = Some (0, 1)"
    by (simp add: query_track_by_title_def tbl ep song_a_def)
  have q2: "query_track_by_id 2 example_manager = Some (0, 2)"
    by (simp add: query_track_by_id_def tbl ep song_a_def untitled_def)
  have n1: "''Song Z'' \<notin> tr_title ` set (track_tbl (session example_manager))"
    by (simp add: tbl song_a_def untitled_def)
  have n2: "7 \<notin> tr_id ` set (track_tbl (session example_manager))"
    by (simp add: tbl song_a_def untitled_def)
  have f1: "\<not> truthy_str (Some [])" and f2: "\<not> truthy_str None" and f3: "\<not> truthy_int (Some 0)"
    by (simp_all add: truthy_str_def truthy_int_def)
  have r2: "in_int64 2" and r7: "in_int64 7" and big: "\<not> in_int64 (2 ^ 63)"
    and nz: "(2::int) ^ 63 \<noteq> 0"
    by (simp_all add: in_int64_def)
  note T1 = get_track_lookup_priority [of "''Song A''" "Some 2" example_manager "Some []" 2]
  note T2 = get_track_lookup_priority [of "''Song Z''" "Some 2" example_manager None 7]
  note T3 = get_track_lookup_priority [of "''Song A''" "Some 0" example_manager "Some []" 2]
  note T4 = get_track_lookup_priority [of "''Song A''" "Some 0" example_manager None "2 ^ 63"]
  have a: "get_track (Some ''Song A'') (Some 2) example_manager =
      (Inr (Some (0, 1)), example_manager)"
    using T1 q1 by auto
  have b: "get_track (Some []) (Some 2) example_manager = (Inr (Some (0, 2)), example_manager)"
    using T1 q2 f1 r2 by auto
  have c: "get_track (Some ''Song Z'') (Some 2) example_manager = (Inr None, example_manager)"
    using T2 n1 by blast
  have d: "get_track None (Some 7) example_manager = (Inr None, example_manager)"
    using T2 n2 f2 r7 by auto
  have e: "get_track (Some []) (Some 0) example_manager = (Inr None, example_manager)"
    using T3 f1 f3 by blast
  have g: "get_track None (Some (2 ^ 63)) example_manager = (Inl OverflowError, example_manager)"
    using T4 f2 big nz by blast
  from a b c d e g n1 n2 f1 f3 r2 r7 big show ?thesis by simp
qed

lemma get_or_create_track_found:
  assumes "t \<noteq> []" and "query_track_by_title t m = Some h"
  shows "get_or_create_track t artist album duration url cover m = (Inr h, m)"
  using assms
  by (simp add: get_or_create_track_def get_track_by_title then_op_def ret_def)

lemma get_or_create_track_new:
  assumes "get_track (Some t) None m = (Inr None, m)"
  shows "get_or_create_track t artist album duration url cover m =
           (Inr (epoch m, next_id (map tr_id (track_tbl (session m)))),
            session_commit (session_add_track
              \<lparr>tr_id = next_id (map tr_id (track_tbl (session m))), tr_title = t,
                tr_artist = artist, tr_album = album, tr_duration = duration, tr_path = None,
                tr_stream_id = Some (next_id (map st_id (stream_tbl (session m)))),
                tr_liked = False,
                tr_cover_art_url = (if \<not> truthy_str cover then Some [] else cover),
                tr_playlists = []\<rparr>
              (Some (Stream_init (next_id (map st_id (stream_tbl (session m)))) (Some url))) m))"
  using assms
  by (simp add: get_or_create_track_def then_op_def ret_def Let_def Track_init_def
      truthy_str_def)

lemma query_after_add_track:
  assumes "query_track_by_title t m = None" and "tr_title new = t"
  shows "query_track_by_title t (session_commit (session_add_track new s m)) =
         Some (epoch m, tr_id new)"
  using assms
  by (simp add: query_track_by_title_def session_add_track_def session_commit_def find_snoc)

lemma lookup_after_add_track:
  assumes "tr_id new = next_id (map tr_id (track_tbl (session m)))"
  shows "lookup_track (epoch m, tr_id new) (session_commit (session_add_track new s m)) =
         Some new"
proof -
  have "find (\<lambda>r. tr_id r = tr_id new) (track_tbl (session m)) = None"
  proof (rule ccontr)
    assume "find (\<lambda>r. tr_id r = tr_id new) (track_tbl (session m)) \<noteq> None"
    then obtain r where "r \<in> set (track_tbl (session m))" and "tr_id r = tr_id new"
      by (auto simp: find_None_iff)
    then have "tr_id new \<in> set (map tr_id (track_tbl (session m)))"
      by (metis image_eqI set_map)
    then have "tr_id new < next_id (map tr_id (track_tbl (session m)))"
      by (rule next_id_fresh)
    with assms show False by simp
  qed
  then show ?thesis
    by (simp add: lookup_track_def session_add_track_def session_commit_def find_snoc)
qed

text \<open>
  Deduplication on a non-empty title: \<open>get_or_create_track\<close> returns the existing
  track and changes nothing when one has the title; otherwise it
  builds a track with an empty playlist list, commits it, and a later call with the
  same title and any other arguments returns that track and changes nothing. (The
  duration of the track that is created is taken in the 64-bit range.)
\<close>

lemma get_or_create_track_nonempty_title:
  assumes "t \<noteq> []" and "in_int64 duration"
  shows "(\<forall>h. query_track_by_title t m = Some h \<longrightarrow>
            get_or_create_track t artist album duration url cover m = (Inr h, m))
       \<and> (query_track_by_title t m = None \<longrightarrow>
            (\<exists>h m' row. get_or_create_track t artist album duration url cover m = (Inr h, m')
               \<and> lookup_track h m' = Some row
               \<and> tr_title row = t \<and> tr_artist row = artist \<and> tr_album row = album
               \<and> tr_duration row = duration \<and> tr_playlists row = []
               \<and> persisted m' = session m'
               \<and> get_or_create_track t artist' album' duration' url' cover' m' = (Inr h, m')))"
proof (intro conjI allI impI)
  fix h
  assume "query_track_by_title t m = Some h"
  with assms(1) show "get_or_create_track t artist album duration url cover m = (Inr h, m)"
    by (rule get_or_create_track_found)
next
  assume none: "query_track_by_title t m = None"
  let ?tid = "next_id (map tr_id (track_tbl (session m)))"
  let ?sid = "next_id (map st_id (stream_tbl (session m)))"
  let ?row = "\<lparr>tr_id = ?tid, tr_title = t, tr_artist = artist, tr_album = album,
                tr_duration = duration, tr_path = None, tr_stream_id = Some ?sid,
                tr_liked = False,
                tr_cover_art_url = (if \<not> truthy_str cover then Some [] else cover),
                tr_playlists = []\<rparr>"
  let ?m' = "session_commit (session_add_track ?row (Some (Stream_init ?sid (Some url))) m)"
  have "get_track (Some t) None m = (Inr None, m)"
    using assms none by (simp add: get_track_by_title)
  then have first:
    "get_or_create_track t artist album duration url cover m = (Inr (epoch m, ?tid), ?m')"
    by (rule get_or_create_track_new)
  have look: "lookup_track (epoch m, ?tid) ?m' = Some ?row"
    using lookup_after_add_track [of ?row m] by simp
  have "query_track_by_title t ?m' = Some (epoch m, ?tid)"
    using query_after_add_track [OF none, of ?row] by simp
  with assms(1)
  have again: "get_or_create_track t artist' album' duration' url' cover' ?m' =
      (Inr (epoch m, ?tid), ?m')"
    by (rule get_or_create_track_found)
  have "persisted ?m' = session ?m'" by (simp add: session_commit_def)
  with first look again
  show "\<exists>h m' row. get_or_create_track t artist album duration url cover m = (Inr h, m')
               \<and> lookup_track h m' = Some row
               \<and> tr_title row = t \<and> tr_artist row = artist \<and> tr_album row = album
               \<and> tr_duration row = duration \<and> tr_playlists row = []
               \<and> persisted m' = session m'
               \<and> get_or_create_track t artist' album' duration' url' cover' m' = (Inr h, m')"
    by (intro exI [of _ "(epoch m, ?tid)"] exI [of _ ?m'] exI [of _ ?row]) simp
qed

text \<open>
  C3 at the empty title. On a new store, \<open>get_or_create_track('''', ''Artist A'', ...)\<close>
  creates track 1; the same call with another artist does not return track 1: the
  lookup by the falsy title finds nothing, and a second track with the same title is
  created and committed.
\<close>

theorem get_or_create_track_empty_title_duplicates:
  "fst (get_or_create_track [] ''Artist A'' ''Album A'' 200 ''http://stream/a'' None
          (PlaylistManager_init empty_tables)) = Inr (0, 1)
   \<and> fst (get_or_create_track [] ''Artist B'' ''Album A'' 200 ''http://stream/a'' None
          (snd (get_or_create_track [] ''Artist A'' ''Album A'' 200 ''http://stream/a'' None
             (PlaylistManager_init empty_tables)))) = Inr (0, 2)
   \<and> map (\<lambda>r. (tr_id r, tr_title r, tr_artist r))
        (track_tbl (persisted
          (snd (get_or_create_track [] ''Artist B'' ''Album A'' 200 ''http://stream/a'' None
            (snd (get_or_create_track [] ''Artist A'' ''Album A'' 200 ''http://stream/a'' None
               (PlaylistManager_init empty_tables)))))))
      = [(1, [], ''Artist A''), (2, [], ''Artist B'')]"
  by (simp add: get_or_create_track_def get_track_def
      then_op_def ret_def truthy_str_def truthy_int_def
      session_commit_def session_add_track_def
      query_track_by_title_def PlaylistManager_init_def empty_tables_def Track_init_def
      Stream_init_def next_id_def Let_def)

lemma find_map_same:
  assumes "\<And>r. P (f r) = P r"
  shows "find P (map f xs) = map_option f (find P xs)"
  by (induction xs) (auto simp: assms)

lemma delete_playlist_live:
  assumes "lookup_playlist p m = Some row"
  shows "delete_playlist (Some p) m = (Inr (), session_commit (session_delete_playlist p m))"
  using assms by (simp add: delete_playlist_def ret_def)

lemma track_tbl_after_delete:
  "track_tbl (session (session_delete_playlist p m)) =
     map (\<lambda>t. t\<lparr>tr_playlists := removeAll p (tr_playlists t)\<rparr>) (track_tbl (session m))"
  by (simp add: session_delete_playlist_def)

lemma playlist_tbl_after_delete:
  "playlist_tbl (session (session_delete_playlist p m)) =
     filter (\<lambda>r. pl_id r \<noteq> p) (playlist_tbl (session m))"
  by (simp add: session_delete_playlist_def)

lemma epoch_after_delete:
  "epoch (session_commit (session_delete_playlist p m)) = epoch m"
  by (simp add: session_commit_def session_delete_playlist_def)

lemma get_track_after_delete:
  "fst (get_track title i (session_commit (session_delete_playlist p m))) =
   fst (get_track title i m)"
proof -
  let ?f = "\<lambda>t. t\<lparr>tr_playlists := removeAll p (tr_playlists t)\<rparr>"
  let ?g = "\<lambda>r. (epoch m, tr_id r)"
  have t: "\<And>x. map_option ?g (find (\<lambda>r. tr_title r = x) (map ?f (track_tbl (session m))))
            = map_option ?g (find (\<lambda>r. tr_title r = x) (track_tbl (session m)))"
    by (subst find_map_same) (simp_all add: option.map_comp comp_def)
  have i: "\<And>x. map_option ?g (find (\<lambda>r. tr_id r = x) (map ?f (track_tbl (session m))))
            = map_option ?g (find (\<lambda>r. tr_id r = x) (track_tbl (session m)))"
    by (subst find_map_same) (simp_all add: option.map_comp comp_def)
  show ?thesis
    by (simp add: get_track_def ret_def raise_def query_track_by_title_def
        query_track_by_id_def track_tbl_after_delete epoch_after_delete t i)
qed

text \<open>
  C9. For a playlist handle that resolves, \<open>delete_playlist\<close> commits a state in which
  the playlist's row is gone and no track lists the playlist any more (its membership
  rows are gone), while the track table keeps every row: each track has the attributes
  it had, its memberships in the other playlists included, the streams are untouched,
  and \<open>get_track\<close> answers every query as it did before the deletion.
\<close>

theorem delete_playlist_keeps_tracks:
  assumes "lookup_playlist p m = Some row"
  shows "\<exists>m'. delete_playlist (Some p) m = (Inr (), m')
     \<and> persisted m' = session m' \<and> commits m' = Suc (commits m)
     \<and> playlist_tbl (session m') = filter (\<lambda>r. pl_id r \<noteq> p) (playlist_tbl (session m))
     \<and> lookup_playlist p m' = None
     \<and> list_all (\<lambda>t. p \<notin> set (tr_playlists t)) (track_tbl (session m'))
     \<and> track_tbl (session m') =
         map (\<lambda>t. t\<lparr>tr_playlists := removeAll p (tr_playlists t)\<rparr>) (track_tbl (session m))
     \<and> map tr_id (track_tbl (session m')) = map tr_id (track_tbl (session m))
     \<and> stream_tbl (session m') = stream_tbl (session m)
     \<and> (\<forall>title i. fst (get_track title i m') = fst (get_track title i m))"
proof -
  let ?m' = "session_commit (session_delete_playlist p m)"
  have del: "delete_playlist (Some p) m = (Inr (), ?m')"
    using assms by (rule delete_playlist_live)
  have c: "persisted ?m' = session ?m'" "commits ?m' = Suc (commits m)"
    by (simp_all add: session_commit_def session_delete_playlist_def)
  have gone: "lookup_playlist p ?m' = None"
    by (simp add: lookup_playlist_def playlist_tbl_after_delete find_None_iff)
  have nomem: "list_all (\<lambda>t. p \<notin> set (tr_playlists t)) (track_tbl (session ?m'))"
    by (simp add: track_tbl_after_delete list_all_iff)
  have ids: "map tr_id (track_tbl (session ?m')) = map tr_id (track_tbl (session m))"
    by (simp add: track_tbl_after_delete comp_def)
  have str: "stream_tbl (session ?m') = stream_tbl (session m)"
    by (simp add: session_delete_playlist_def)
  from del c gone nomem ids str show ?thesis
    by (intro exI [of _ ?m'])
       (simp add: playlist_tbl_after_delete track_tbl_after_delete get_track_after_delete)
qed

theorem delete_playlist_keeps_tracks_witness:
  "lookup_playlist 1 (snd (add_track_to_playlist (Some (0, 1)) 1 example_manager)) = Some mix
   \<and> map tr_playlists
        (track_tbl (session (snd (add_track_to_playlist (Some (0, 1)) 1 example_manager))))
       = [[1], []]
   \<and> fst (delete_playlist (Some 1)
        (snd (add_track_to_playlist (Some (0, 1)) 1 example_manager))) = Inr ()
   \<and> map tr_playlists (track_tbl (persisted (snd (delete_playlist (Some 1)
        (snd (add_track_to_playlist (Some (0, 1)) 1 example_manager)))))) = [[], []]
   \<and> map pl_title (playlist_tbl (persisted (snd (delete_playlist (Some 1)
        (snd (add_track_to_playlist (Some (0, 1)) 1 example_manager)))))) = []
   \<and> fst (get_track (Some ''Song A'') None (snd (delete_playlist (Some 1)
        (snd (add_track_to_playlist (Some (0, 1)) 1 example_manager))))) = Inr (Some (0, 1))"
proof -
  let ?m = "snd (add_track_to_playlist (Some (0, 1)) 1 example_manager)"
  have m: "?m = session_commit
      (update_track 1 (\<lambda>r. r\<lparr>tr_playlists := tr_playlists song_a @ [1]\<rparr>) example_manager)"
    using add_track_to_playlist_new [OF example_lookup, of 1] by (simp add: song_a_def)
  have live: "lookup_playlist 1 ?m = Some mix"
    unfolding m
    by (simp add: lookup_playlist_def update_track_def example_manager_def
        PlaylistManager_init_def example_db_def mix_def)
  have tr: "track_tbl (session ?m) = [song_a\<lparr>tr_playlists := [1]\<rparr>, untitled]"
    unfolding m
    by (simp add: update_track_def example_manager_def PlaylistManager_init_def
        example_db_def song_a_def untitled_def)
  have pl: "playlist_tbl (session ?m) = [mix]"
    unfolding m
    by (simp add: update_track_def example_manager_def PlaylistManager_init_def example_db_def)
  have q: "fst (get_track (Some ''Song A'') None ?m) = Inr (Some (0, 1))"
    unfolding m
    by (simp add: get_track_def truthy_str_def ret_def query_track_by_title_def
        update_track_def session_commit_def example_manager_def PlaylistManager_init_def
        example_db_def song_a_def untitled_def)
  from delete_playlist_keeps_tracks [OF live] obtain m' where
    d: "delete_playlist (Some 1) ?m = (Inr (), m')" and
    p: "persisted m' = session m'" and
    pt: "playlist_tbl (session m') = filter (\<lambda>r. pl_id r \<noteq> 1) (playlist_tbl (session ?m))" and
    tt: "track_tbl (session m') =
         map (\<lambda>t. t\<lparr>tr_playlists := removeAll 1 (tr_playlists t)\<rparr>) (track_tbl (session ?m))" and
    g: "\<forall>title i. fst (get_track title i m') = fst (get_track title i ?m)"
    by blast
  from g q have g1: "fst (get_track (Some ''Song A'') None m') = Inr (Some (0, 1))" by simp
  have t1: "map tr_playlists (track_tbl (persisted m')) = [[], []]"
    by (simp add: p tt tr song_a_def untitled_def)
  have p1: "map pl_title (playlist_tbl (persisted m')) = []"
    by (simp add: p pt pl mix_def)
  have t0: "map tr_playlists (track_tbl (session ?m)) = [[1], []]"
    by (simp add: tr untitled_def)
  from d live t0 t1 p1 g1 show ?thesis by simp
qed

lemma query_playlist_update_track:
  "query_playlist_by_title t (update_track h f m) = query_playlist_by_title t m"
  by (simp add: query_playlist_by_title_def update_track_def)

lemma query_playlist_commit:
  "query_playlist_by_title t (session_commit m) = query_playlist_by_title t m"
  by (simp add: query_playlist_by_title_def)

lemma lookup_track_add_playlist:
  "lookup_track h (session_commit (session_add_playlist new m)) = lookup_track h m"
  by (simp add: lookup_track_def session_add_playlist_def session_commit_def)

lemma query_playlist_in_table:
  assumes "query_playlist_by_title t m = Some p"
  shows "p \<in> pl_id ` set (playlist_tbl (session m))"
proof -
  from assms obtain r where "find (\<lambda>r. pl_title r = t) (playlist_tbl (session m)) = Some r"
    and "pl_id r = p"
    by (auto simp: query_playlist_by_title_def)
  then have "r \<in> set (playlist_tbl (session m))"
    by (auto simp: find_Some_iff)
  with \<open>pl_id r = p\<close> show ?thesis by blast
qed

text \<open>Fetching or creating a playlist leaves it in place, and leaves the tracks alone.\<close>

lemma get_or_create_playlist_result:
  "\<exists>p m0. get_or_create_playlist t now m = (Inr p, m0)
      \<and> query_playlist_by_title t m0 = Some p
      \<and> (\<forall>h. lookup_track h m0 = lookup_track h m)
      \<and> (query_playlist_by_title t m = Some p \<and> m0 = m
          \<or> query_playlist_by_title t m = None
            \<and> p = next_id (map pl_id (playlist_tbl (session m))))"
proof (cases "query_playlist_by_title t m")
  case None
  then show ?thesis
    by (simp add: get_or_create_playlist_new query_after_add_playlist
        lookup_track_add_playlist del: session_commit_session)
next
  case (Some p)
  then show ?thesis
    by (simp add: get_or_create_playlist_found)
qed

lemma liked_songs_fresh:
  assumes live: "lookup_track h m = Some row"
    and ref: "set (tr_playlists row) \<subseteq> pl_id ` set (playlist_tbl (session m))"
    and notliked: "\<not> on_playlist_titled t row m"
  shows "\<exists>p m0. get_or_create_playlist t now m = (Inr p, m0)
      \<and> query_playlist_by_title t m0 = Some p
      \<and> lookup_track h m0 = Some row
      \<and> p \<notin> set (tr_playlists row)"
proof -
  from get_or_create_playlist_result [of t now m] obtain p m0 where
    goc: "get_or_create_playlist t now m = (Inr p, m0)"
    and q: "query_playlist_by_title t m0 = Some p"
    and l: "\<forall>h. lookup_track h m0 = lookup_track h m"
    and c: "query_playlist_by_title t m = Some p \<and> m0 = m
          \<or> query_playlist_by_title t m = None
            \<and> p = next_id (map pl_id (playlist_tbl (session m)))"
    by blast
  have "p \<notin> set (tr_playlists row)"
  proof
    assume mem: "p \<in> set (tr_playlists row)"
    from c show False
    proof
      assume "query_playlist_by_title t m = Some p \<and> m0 = m"
      then obtain r where "find (\<lambda>r. pl_title r = t) (playlist_tbl (session m)) = Some r"
        and "pl_id r = p"
        by (auto simp: query_playlist_by_title_def)
      then have "r \<in> set (playlist_tbl (session m))" and "pl_title r = t" and "pl_id r = p"
        by (auto simp: find_Some_iff)
      with mem have "on_playlist_titled t row m"
        by (auto simp: on_playlist_titled_def list_ex_iff)
      with notliked show False by simp
    next
      assume fresh: "query_playlist_by_title t m = None
            \<and> p = next_id (map pl_id (playlist_tbl (session m)))"
      from mem ref have "p \<in> set (map pl_id (playlist_tbl (session m)))" by auto
      then have "p < next_id (map pl_id (playlist_tbl (session m)))" by (rule next_id_fresh)
      with fresh show False by simp
    qed
  qed
  moreover from l live have "lookup_track h m0 = Some row" by (cases h) simp
  ultimately show ?thesis using goc q by blast
qed

lemma track_is_liked_existing:
  assumes "query_playlist_by_title ''Liked Songs'' m = Some p" and "lookup_track h m = Some row"
  shows "track_is_liked (Some h) now m = (Inr (p \<in> set (tr_playlists row)), m)"
  using assms lookup_track_attached [OF assms(2)]
  by (simp add: track_is_liked_def then_op_def get_or_create_playlist_found ret_def)

lemma add_track_to_liked_songs_existing:
  assumes "query_playlist_by_title ''Liked Songs'' m = Some p"
  shows "add_track_to_liked_songs track now m = add_track_to_playlist track p m"
  using assms
  by (simp add: add_track_to_liked_songs_def then_op_def get_or_create_playlist_found)

lemma remove_track_from_liked_songs_existing:
  assumes "query_playlist_by_title ''Liked Songs'' m = Some p"
  shows "remove_track_from_liked_songs track now m = remove_track_from_playlist track p m"
  using assms
  by (simp add: remove_track_from_liked_songs_def then_op_def get_or_create_playlist_found)

text \<open>The cycle on a state that has the playlist, entered by a track that is not on it.\<close>

lemma liked_cycle_existing:
  assumes q: "query_playlist_by_title ''Liked Songs'' m = Some p"
    and live: "lookup_track h m = Some row"
    and absent: "p \<notin> set (tr_playlists row)"
  shows "track_is_liked (Some h) n0 m = (Inr False, m)
     \<and> (\<exists>m1 m2. add_track_to_liked_songs (Some h) n1 m = (Inr (), m1)
           \<and> track_is_liked (Some h) n2 m1 = (Inr True, m1)
           \<and> remove_track_from_liked_songs (Some h) n3 m1 = (Inr (), m2)
           \<and> track_is_liked (Some h) n4 m2 = (Inr False, m2))"
proof -
  let ?f = "\<lambda>r. r\<lparr>tr_playlists := tr_playlists row @ [p]\<rparr>"
  let ?m1 = "session_commit (update_track (snd h) ?f m)"
  let ?g = "\<lambda>r. r\<lparr>tr_playlists := remove1 p (tr_playlists (?f row))\<rparr>"
  let ?m2 = "session_commit (update_track (snd h) ?g ?m1)"
  have a: "track_is_liked (Some h) n0 m = (Inr False, m)"
    using track_is_liked_existing [OF q live] absent by simp
  have add: "add_track_to_liked_songs (Some h) n1 m = (Inr (), ?m1)"
    using add_track_to_liked_songs_existing [OF q] add_track_to_playlist_new [OF live absent]
    by simp
  have q1: "query_playlist_by_title ''Liked Songs'' ?m1 = Some p"
    using q by (simp add: query_playlist_commit query_playlist_update_track)
  have l1: "lookup_track h ?m1 = Some (?f row)"
    by (subst lookup_track_update) (simp_all add: live)
  have b: "track_is_liked (Some h) n2 ?m1 = (Inr True, ?m1)"
    using track_is_liked_existing [OF q1 l1] by simp
  have mem: "p \<in> set (tr_playlists (?f row))" by simp
  have rem: "remove_track_from_liked_songs (Some h) n3 ?m1 = (Inr (), ?m2)"
    using remove_track_from_liked_songs_existing [OF q1]
      remove_track_from_playlist_member [OF l1 mem]
    by simp
  have q2: "query_playlist_by_title ''Liked Songs'' ?m2 = Some p"
    using q by (simp add: query_playlist_commit query_playlist_update_track)
  have l2: "lookup_track h ?m2 = Some (?g (?f row))"
    by (subst lookup_track_update) (simp_all add: l1)
  have "tr_playlists (?g (?f row)) = tr_playlists row"
    using absent by (simp add: remove1_append)
  then have c: "track_is_liked (Some h) n4 ?m2 = (Inr False, ?m2)"
    using track_is_liked_existing [OF q2 l2] absent by simp
  from a add b rem c show ?thesis by blast
qed

lemma query_playlist_after_add:
  "query_playlist_by_title t (snd (add_track_to_playlist track p m)) = query_playlist_by_title t m"
  by (simp add: add_track_to_playlist_def ret_def raise_def Let_def
      query_playlist_commit query_playlist_update_track split: option.splits)

lemma query_playlist_after_remove:
  "query_playlist_by_title t (snd (remove_track_from_playlist track p m)) =
   query_playlist_by_title t m"
  by (simp add: remove_track_from_playlist_def ret_def raise_def Let_def
      query_playlist_commit query_playlist_update_track split: option.splits)

lemma playlist_exists_iff:
  "playlist_exists t m = (Inr (query_playlist_by_title t m \<noteq> None), m)"
  by (simp add: playlist_exists_def get_playlist_def then_op_def ret_def)

lemma liked_songs_created_on_reference:
  "fst (playlist_exists ''Liked Songs'' (snd (track_is_liked track now m))) = Inr True
   \<and> fst (playlist_exists ''Liked Songs'' (snd (add_track_to_liked_songs track now m))) = Inr True
   \<and> fst (playlist_exists ''Liked Songs'' (snd (remove_track_from_liked_songs track now m)))
       = Inr True"
proof -
  from get_or_create_playlist_result [of "''Liked Songs''" now m] obtain p m0 where
    goc: "get_or_create_playlist ''Liked Songs'' now m = (Inr p, m0)"
    and q: "query_playlist_by_title ''Liked Songs'' m0 = Some p"
    by blast
  have "snd (track_is_liked track now m) = m0"
    using goc by (simp add: track_is_liked_def then_op_def ret_def raise_def split: option.splits)
  moreover have "snd (add_track_to_liked_songs track now m) = snd (add_track_to_playlist track p m0)"
    using goc by (simp add: add_track_to_liked_songs_def then_op_def)
  moreover have "snd (remove_track_from_liked_songs track now m) =
      snd (remove_track_from_playlist track p m0)"
    using goc by (simp add: remove_track_from_liked_songs_def then_op_def)
  ultimately show ?thesis
    using q by (simp add: playlist_exists_iff query_playlist_after_add query_playlist_after_remove)
qed

text \<open>
  The cycle for a track that is on no playlist titled ``Liked Songs'', from the state
  the first query leaves and from the given state.
\<close>

lemma liked_songs_cycle:
  assumes live: "lookup_track h m = Some row"
    and ref: "set (tr_playlists row) \<subseteq> pl_id ` set (playlist_tbl (session m))"
    and notliked: "\<not> on_playlist_titled ''Liked Songs'' row m"
  shows "(\<exists>m0. track_is_liked (Some h) n0 m = (Inr False, m0)
           \<and> (\<exists>m1 m2. add_track_to_liked_songs (Some h) n1 m0 = (Inr (), m1)
                 \<and> track_is_liked (Some h) n2 m1 = (Inr True, m1)
                 \<and> remove_track_from_liked_songs (Some h) n3 m1 = (Inr (), m2)
                 \<and> track_is_liked (Some h) n4 m2 = (Inr False, m2)))
     \<and> (\<exists>m1 m2. add_track_to_liked_songs (Some h) n1 m = (Inr (), m1)
           \<and> track_is_liked (Some h) n2 m1 = (Inr True, m1)
           \<and> remove_track_from_liked_songs (Some h) n3 m1 = (Inr (), m2)
           \<and> track_is_liked (Some h) n4 m2 = (Inr False, m2))"
proof
  from liked_songs_fresh [OF live ref notliked, of n0] obtain p m0 where
    goc: "get_or_create_playlist ''Liked Songs'' n0 m = (Inr p, m0)"
    and q: "query_playlist_by_title ''Liked Songs'' m0 = Some p"
    and l: "lookup_track h m0 = Some row"
    and absent: "p \<notin> set (tr_playlists row)"
    by blast
  have "track_is_liked (Some h) n0 m = (Inr False, m0)"
    using goc l absent lookup_track_attached [OF l]
    by (simp add: track_is_liked_def then_op_def ret_def)
  with liked_cycle_existing [OF q l absent, of n0 n1 n2 n3 n4]
  show "\<exists>m0. track_is_liked (Some h) n0 m = (Inr False, m0)
           \<and> (\<exists>m1 m2. add_track_to_liked_songs (Some h) n1 m0 = (Inr (), m1)
                 \<and> track_is_liked (Some h) n2 m1 = (Inr True, m1)
                 \<and> remove_track_from_liked_songs (Some h) n3 m1 = (Inr (), m2)
                 \<and> track_is_liked (Some h) n4 m2 = (Inr False, m2))"
    by blast
next
  from liked_songs_fresh [OF live ref notliked, of n1] obtain p m0 where
    goc: "get_or_create_playlist ''Liked Songs'' n1 m = (Inr p, m0)"
    and q: "query_playlist_by_title ''Liked Songs'' m0 = Some p"
    and l: "lookup_track h m0 = Some row"
    and absent: "p \<notin> set (tr_playlists row)"
    by blast
  have "add_track_to_liked_songs (Some h) n1 m = add_track_to_liked_songs (Some h) n1 m0"
    using goc q
    by (simp add: add_track_to_liked_songs_def then_op_def get_or_create_playlist_found)
  with liked_cycle_existing [OF q l absent, of n0 n1 n2 n3 n4]
  show "\<exists>m1 m2. add_track_to_liked_songs (Some h) n1 m = (Inr (), m1)
           \<and> track_is_liked (Some h) n2 m1 = (Inr True, m1)
           \<and> remove_track_from_liked_songs (Some h) n3 m1 = (Inr (), m2)
           \<and> track_is_liked (Some h) n4 m2 = (Inr False, m2)"
    by simp
qed

text \<open>A track that \<open>get_or_create_track\<close> has just created is on no playlist.\<close>

lemma created_track_not_liked:
  assumes "get_track (Some t) None m = (Inr None, m)"
  shows "\<exists>h m1. get_or_create_track t artist album duration url cover m = (Inr h, m1)
      \<and> (\<exists>m0. track_is_liked (Some h) n0 m1 = (Inr False, m0)
           \<and> (\<exists>m2 m3. add_track_to_liked_songs (Some h) n1 m0 = (Inr (), m2)
                 \<and> track_is_liked (Some h) n2 m2 = (Inr True, m2)
                 \<and> remove_track_from_liked_songs (Some h) n3 m2 = (Inr (), m3)
                 \<and> track_is_liked (Some h) n4 m3 = (Inr False, m3)))"
proof -
  let ?tid = "next_id (map tr_id (track_tbl (session m)))"
  let ?sid = "next_id (map st_id (stream_tbl (session m)))"
  let ?row = "\<lparr>tr_id = ?tid, tr_title = t, tr_artist = artist, tr_album = album,
                tr_duration = duration, tr_path = None, tr_stream_id = Some ?sid,
                tr_liked = False,
                tr_cover_art_url = (if \<not> truthy_str cover then Some [] else cover),
                tr_playlists = []\<rparr>"
  let ?m1 = "session_commit (session_add_track ?row (Some (Stream_init ?sid (Some url))) m)"
  have first:
    "get_or_create_track t artist album duration url cover m = (Inr (epoch m, ?tid), ?m1)"
    using assms by (rule get_or_create_track_new)
  have live: "lookup_track (epoch m, ?tid) ?m1 = Some ?row"
    using lookup_after_add_track [of ?row m] by simp
  have ref: "set (tr_playlists ?row) \<subseteq> pl_id ` set (playlist_tbl (session ?m1))" by simp
  have notliked: "\<not> on_playlist_titled ''Liked Songs'' ?row ?m1"
    by (simp add: on_playlist_titled_def list_ex_iff)
  from liked_songs_cycle [OF live ref notliked, of n0 n1 n2 n3 n4] first
  show ?thesis by blast
qed

text \<open>
  C4, as stated, fails: a track can be liked without any liked-songs operation on it.
  On \<open>example_manager\<close>, track 1 is added to the playlist ``Mix'' with
  \<open>add_track_to_playlist\<close> and the playlist is renamed to ``Liked Songs'' with
  \<open>rename_playlist\<close>; \<open>track_is_liked\<close> then answers \<open>True\<close>.
\<close>

theorem liked_by_rename_counterexample:
  "fst (add_track_to_playlist (Some (0, 1)) 1 example_manager) = Inr ()
   \<and> fst (rename_playlist (Some 1) ''Liked Songs''
        (snd (add_track_to_playlist (Some (0, 1)) 1 example_manager))) = Inr ()
   \<and> fst (track_is_liked (Some (0, 1)) 10
        (snd (rename_playlist (Some 1) ''Liked Songs''
          (snd (add_track_to_playlist (Some (0, 1)) 1 example_manager))))) = Inr True"
  by (simp add: add_track_to_playlist_def rename_playlist_def track_is_liked_def
      get_or_create_playlist_def get_playlist_def then_op_def ret_def raise_def
      lookup_track_def lookup_playlist_def query_playlist_by_title_def update_track_def
      update_playlist_def session_commit_def Let_def example_manager_def
      PlaylistManager_init_def example_db_def mix_def song_a_def untitled_def)

text \<open>
  C4, amended. Take a track whose handle resolves, whose playlists all exist, and which
  is on no playlist titled ``Liked Songs'' (no such playlist need exist yet); every
  track that \<open>get_or_create_track\<close> has just created is one. Then \<open>track_is_liked\<close> answers
  \<open>False\<close>; after \<open>add_track_to_liked_songs\<close> it answers \<open>True\<close>; after
  \<open>remove_track_from_liked_songs\<close> it answers \<open>False\<close> again, whether the cycle starts
  from the given state or from the one the first query left. The playlist is not
  created when the manager is constructed: construction adds no playlist row and a new
  store has no ``Liked Songs''; it exists after the first of \<open>track_is_liked\<close>,
  \<open>add_track_to_liked_songs\<close> and \<open>remove_track_from_liked_songs\<close>, for any track operand.
\<close>

theorem liked_songs_singleton:
  assumes live: "lookup_track h m = Some row"
    and ref: "set (tr_playlists row) \<subseteq> pl_id ` set (playlist_tbl (session m))"
    and notliked: "\<not> on_playlist_titled ''Liked Songs'' row m"
  shows "(\<exists>m0. track_is_liked (Some h) n0 m = (Inr False, m0)
           \<and> (\<exists>m1 m2. add_track_to_liked_songs (Some h) n1 m0 = (Inr (), m1)
                 \<and> track_is_liked (Some h) n2 m1 = (Inr True, m1)
                 \<and> remove_track_from_liked_songs (Some h) n3 m1 = (Inr (), m2)
                 \<and> track_is_liked (Some h) n4 m2 = (Inr False, m2)))
     \<and> (\<exists>m1 m2. add_track_to_liked_songs (Some h) n1 m = (Inr (), m1)
           \<and> track_is_liked (Some h) n2 m1 = (Inr True, m1)
           \<and> remove_track_from_liked_songs (Some h) n3 m1 = (Inr (), m2)
           \<and> track_is_liked (Some h) n4 m2 = (Inr False, m2))
     \<and> (get_track (Some t) None m' = (Inr None, m') \<and> in_int64 duration \<longrightarrow>
          (\<exists>h' m1. get_or_create_track t artist album duration url cover m' = (Inr h', m1)
             \<and> (\<exists>m0. track_is_liked (Some h') n0 m1 = (Inr False, m0)
                  \<and> (\<exists>m2 m3. add_track_to_liked_songs (Some h') n1 m0 = (Inr (), m2)
                        \<and> track_is_liked (Some h') n2 m2 = (Inr True, m2)
                        \<and> remove_track_from_liked_songs (Some h') n3 m2 = (Inr (), m3)
                        \<and> track_is_liked (Some h') n4 m3 = (Inr False, m3)))))
     \<and> playlist_tbl (session (PlaylistManager_init db)) = playlist_tbl db
     \<and> fst (playlist_exists ''Liked Songs'' (PlaylistManager_init empty_tables)) = Inr False
     \<and> fst (playlist_exists ''Liked Songs'' (snd (track_is_liked track now m'))) = Inr True
     \<and> fst (playlist_exists ''Liked Songs'' (snd (add_track_to_liked_songs track now m')))
         = Inr True
     \<and> fst (playlist_exists ''Liked Songs'' (snd (remove_track_from_liked_songs track now m')))
         = Inr True"
proof -
  note cycle = liked_songs_cycle [OF live ref notliked, of n0 n1 n2 n3 n4]
  have created: "get_track (Some t) None m' = (Inr None, m') \<and> in_int64 duration \<longrightarrow>
          (\<exists>h' m1. get_or_create_track t artist album duration url cover m' = (Inr h', m1)
             \<and> (\<exists>m0. track_is_liked (Some h') n0 m1 = (Inr False, m0)
                  \<and> (\<exists>m2 m3. add_track_to_liked_songs (Some h') n1 m0 = (Inr (), m2)
                        \<and> track_is_liked (Some h') n2 m2 = (Inr True, m2)
                        \<and> remove_track_from_liked_songs (Some h') n3 m2 = (Inr (), m3)
                        \<and> track_is_liked (Some h') n4 m3 = (Inr False, m3))))"
    using created_track_not_liked [of t m' artist album duration url cover n0 n1 n2 n3 n4]
    by blast
  have init: "playlist_tbl (session (PlaylistManager_init db)) = playlist_tbl db"
    by (simp add: PlaylistManager_init_def)
  have new: "fst (playlist_exists ''Liked Songs'' (PlaylistManager_init empty_tables)) = Inr False"
    by (simp add: playlist_exists_iff query_playlist_by_title_def PlaylistManager_init_def
        empty_tables_def)
  from cycle created init new liked_songs_created_on_reference [of track now m']
  show ?thesis by blast
qed

theorem liked_songs_singleton_witness:
  "lookup_track (0, 1) example_manager = Some song_a
   \<and> set (tr_playlists song_a) \<subseteq> pl_id ` set (playlist_tbl (session example_manager))
   \<and> \<not> on_playlist_titled ''Liked Songs'' song_a example_manager
   \<and> fst (playlist_exists ''Liked Songs'' example_manager) = Inr False
   \<and> fst (track_is_liked (Some (0, 1)) 10 example_manager) = Inr False
   \<and> fst (track_is_liked (Some (0, 1)) 12
            (snd (add_track_to_liked_songs (Some (0, 1)) 11 example_manager))) = Inr True
   \<and> fst (track_is_liked (Some (0, 1)) 14
            (snd (remove_track_from_liked_songs (Some (0, 1)) 13
               (snd (add_track_to_liked_songs (Some (0, 1)) 11 example_manager))))) = Inr False
   \<and> fst (playlist_exists ''Liked Songs''
            (snd (track_is_liked (Some (0, 1)) 10 example_manager))) = Inr True
   \<and> get_track (Some ''Song C'') None example_manager = (Inr None, example_manager)
   \<and> in_int64 180
   \<and> (\<exists>h' m1. get_or_create_track ''Song C'' ''Artist C'' ''Album C'' 180 ''http://stream/c''
                 None example_manager = (Inr h', m1)
         \<and> fst (track_is_liked (Some h') 10 m1) = Inr False)"
proof -
  have live: "lookup_track (0, 1) example_manager = Some song_a" by (rule example_lookup)
  have ref: "set (tr_playlists song_a) \<subseteq> pl_id ` set (playlist_tbl (session example_manager))"
    by (simp add: song_a_def)
  have notliked: "\<not> on_playlist_titled ''Liked Songs'' song_a example_manager"
    by (simp add: on_playlist_titled_def song_a_def example_manager_def
        PlaylistManager_init_def example_db_def mix_def)
  have q: "query_playlist_by_title ''Liked Songs'' example_manager = None"
    by (simp add: query_playlist_by_title_def example_manager_def PlaylistManager_init_def
        example_db_def mix_def)
  have ex: "fst (playlist_exists ''Liked Songs'' example_manager) = Inr False"
    using q by (simp add: playlist_exists_iff)
  have gt: "get_track (Some ''Song C'') None example_manager = (Inr None, example_manager)"
    by (simp add: get_track_def truthy_str_def ret_def query_track_by_title_def
        example_manager_def PlaylistManager_init_def example_db_def song_a_def untitled_def)
  have rg: "in_int64 180" by (simp add: in_int64_def)
  note T = liked_songs_singleton [OF live ref notliked,
      of 10 11 12 13 14 "''Song C''" example_manager 180 "''Artist C''" "''Album C''"
         "''http://stream/c''" None example_db "Some (0, 1)" 10]
  from T obtain m0 where a: "track_is_liked (Some (0, 1)) 10 example_manager = (Inr False, m0)"
    by blast
  from T obtain m1 m2 where
    b: "add_track_to_liked_songs (Some (0, 1)) 11 example_manager = (Inr (), m1)"
    and c: "track_is_liked (Some (0, 1)) 12 m1 = (Inr True, m1)"
    and d: "remove_track_from_liked_songs (Some (0, 1)) 13 m1 = (Inr (), m2)"
    and e: "track_is_liked (Some (0, 1)) 14 m2 = (Inr False, m2)"
    by blast
  from T have f: "fst (playlist_exists ''Liked Songs''
      (snd (track_is_liked (Some (0, 1)) 10 example_manager))) = Inr True"
    by blast
  from T gt rg obtain h' m1' m0' where
    g: "get_or_create_track ''Song C'' ''Artist C'' ''Album C'' 180 ''http://stream/c''
          None example_manager = (Inr h', m1')"
    and g2: "track_is_liked (Some h') 10 m1' = (Inr False, m0')"
    by blast
  from g g2 have gg: "\<exists>h' m1. get_or_create_track ''Song C'' ''Artist C'' ''Album C'' 180
      ''http://stream/c'' None example_manager = (Inr h', m1)
         \<and> fst (track_is_liked (Some h') 10 m1) = Inr False"
    by simp
  from live ref notliked ex a b c d e f gt rg gg show ?thesis by simp
qed

lemma cu_refl: "committed_or_unchanged m m"
  by (simp add: committed_or_unchanged_def)

lemma cu_trans:
  "committed_or_unchanged m m1 \<Longrightarrow> committed_or_unchanged m1 m2 \<Longrightarrow>
   committed_or_unchanged m m2"
  by (auto simp: committed_or_unchanged_def)

lemma cu_commit: "commits x = commits m \<Longrightarrow> committed_or_unchanged m (session_commit x)"
  by (simp add: committed_or_unchanged_def session_commit_def)

lemma cu_then_op:
  assumes "\<And>m. committed_or_unchanged m (snd (f m))"
    and "\<And>x m. committed_or_unchanged m (snd (g x m))"
  shows "committed_or_unchanged m (snd (then_op f g m))"
proof (cases "f m")
  case (Pair r m')
  with assms(1) [of m] have step: "committed_or_unchanged m m'" by simp
  show ?thesis
  proof (cases r)
    case (Inl e)
    with Pair step show ?thesis by (simp add: then_op_def)
  next
    case (Inr x)
    with Pair have "snd (then_op f g m) = snd (g x m')" by (simp add: then_op_def)
    with step assms(2) [of m' x] show ?thesis by (auto intro: cu_trans)
  qed
qed

lemma cu_get_track: "committed_or_unchanged m (snd (get_track title i m))"
  by (simp add: get_track_state cu_refl)

lemma cu_get_playlist: "committed_or_unchanged m (snd (get_playlist t m))"
  by (simp add: get_playlist_def ret_def cu_refl)

lemma cu_get_or_create_playlist:
  "committed_or_unchanged m (snd (get_or_create_playlist t now m))"
  unfolding get_or_create_playlist_def
  by (rule cu_then_op)
     (auto simp: cu_get_playlist ret_def cu_refl Let_def session_add_playlist_def
        intro!: cu_commit split: option.splits)

lemma cu_get_or_create_track:
  "committed_or_unchanged m (snd (get_or_create_track t a al d u c m))"
  unfolding get_or_create_track_def
  by (rule cu_then_op)
     (auto simp: cu_get_track ret_def cu_refl Let_def session_add_track_def
        intro!: cu_commit split: option.splits prod.splits)

lemma cu_add_track_cover_art:
  "committed_or_unchanged m (snd (add_track_cover_art track u m))"
  by (auto simp: add_track_cover_art_def ret_def raise_def cu_refl update_track_def
      intro!: cu_commit split: option.splits)

lemma cu_rename_playlist:
  "committed_or_unchanged m (snd (rename_playlist playlist x m))"
  by (auto simp: rename_playlist_def ret_def raise_def cu_refl update_playlist_def
      intro!: cu_commit split: option.splits)

lemma cu_edit_playlist_description:
  "committed_or_unchanged m (snd (edit_playlist_description playlist x m))"
  by (auto simp: edit_playlist_description_def ret_def raise_def cu_refl update_playlist_def
      intro!: cu_commit split: option.splits)

lemma cu_delete_playlist:
  "committed_or_unchanged m (snd (delete_playlist playlist m))"
  by (auto simp: delete_playlist_def ret_def raise_def cu_refl session_delete_playlist_def
      intro!: cu_commit split: option.splits)

lemma cu_add_track_to_playlist:
  "committed_or_unchanged m (snd (add_track_to_playlist track p m))"
  by (auto simp: add_track_to_playlist_def ret_def raise_def cu_refl update_track_def Let_def
      intro!: cu_commit split: option.splits)

lemma cu_remove_track_from_playlist:
  "committed_or_unchanged m (snd (remove_track_from_playlist track p m))"
  by (auto simp: remove_track_from_playlist_def ret_def raise_def cu_refl update_track_def Let_def
      intro!: cu_commit split: option.splits)

lemma cu_create_and_add_track_to_playlist:
  "committed_or_unchanged m (snd (create_and_add_track_to_playlist t a al d u p c m))"
  unfolding create_and_add_track_to_playlist_def
  by (intro cu_then_op cu_get_or_create_track cu_add_track_to_playlist)
     (simp add: ret_def cu_refl)

lemma cu_add_track_to_liked_songs:
  "committed_or_unchanged m (snd (add_track_to_liked_songs track now m))"
  unfolding add_track_to_liked_songs_def
  by (intro cu_then_op cu_get_or_create_playlist cu_add_track_to_playlist)

lemma cu_create_and_add_track_to_liked_songs:
  "committed_or_unchanged m (snd (create_and_add_track_to_liked_songs t a al d u c now m))"
  unfolding create_and_add_track_to_liked_songs_def
  by (intro cu_then_op cu_get_or_create_playlist cu_create_and_add_track_to_playlist)

lemma cu_remove_track_from_liked_songs:
  "committed_or_unchanged m (snd (remove_track_from_liked_songs track now m))"
  unfolding remove_track_from_liked_songs_def
  by (intro cu_then_op cu_get_or_create_playlist cu_remove_track_from_playlist)

lemma cu_commit_session: "committed_or_unchanged m (snd (commit_session m))"
  by (simp add: commit_session_def ret_def cu_commit)

lemma track_is_liked_state:
  "snd (track_is_liked track now m) = snd (get_or_create_playlist ''Liked Songs'' now m)"
proof -
  obtain p m0 where "get_or_create_playlist ''Liked Songs'' now m = (Inr p, m0)"
    using get_or_create_playlist_ok by blast
  then show ?thesis
    by (simp add: track_is_liked_def then_op_def ret_def raise_def split: option.splits)
qed

text \<open>
  C6, as stated, fails for \<open>track_is_liked\<close>: it is a query, and on a store that has no
  ``Liked Songs'' playlist yet it creates the playlist and commits. On \<open>example_manager\<close>
  the call makes the first commit and adds a row to the persisted playlist table.
\<close>

theorem track_is_liked_commits_counterexample:
  "commits example_manager = 0
   \<and> map pl_title (playlist_tbl (persisted example_manager)) = [''Mix'']
   \<and> fst (track_is_liked (Some (0, 1)) 10 example_manager) = Inr False
   \<and> commits (snd (track_is_liked (Some (0, 1)) 10 example_manager)) = 1
   \<and> map pl_title (playlist_tbl (persisted (snd (track_is_liked (Some (0, 1)) 10 example_manager))))
       = [''Mix'', ''Liked Songs'']"
  by (simp add: track_is_liked_def get_or_create_playlist_def get_playlist_def then_op_def
      ret_def raise_def query_playlist_by_title_def lookup_track_def session_commit_def
      session_add_playlist_def Playlist_init_def truthy_str_def next_id_def Let_def
      example_manager_def PlaylistManager_init_def example_db_def mix_def song_a_def
      untitled_def)

text \<open>
  C6, amended. \<open>get_track\<close>, \<open>get_playlist\<close> and \<open>playlist_exists\<close> never commit and leave
  the manager, and with it the persisted state, unchanged. \<open>track_is_liked\<close> does the
  same when a ``Liked Songs'' playlist exists; when none exists it creates one and
  commits once. Every mutating operation either leaves the manager untouched (its no-op
  paths) or has committed when it returns, with nothing of its work left pending.
\<close>

theorem commit_discipline:
  "snd (get_track title i m) = m
   \<and> snd (get_playlist t m) = m
   \<and> snd (playlist_exists t m) = m
   \<and> (query_playlist_by_title ''Liked Songs'' m \<noteq> None \<longrightarrow>
        snd (track_is_liked track now m) = m)
   \<and> (query_playlist_by_title ''Liked Songs'' m = None \<longrightarrow>
        commits (snd (track_is_liked track now m)) = Suc (commits m)
        \<and> persisted (snd (track_is_liked track now m)) = session (snd (track_is_liked track now m))
        \<and> map pl_title (playlist_tbl (persisted (snd (track_is_liked track now m)))) =
            map pl_title (playlist_tbl (session m)) @ [''Liked Songs''])
   \<and> committed_or_unchanged m (snd (get_or_create_track t artist album duration url cover m))
   \<and> committed_or_unchanged m (snd (add_track_cover_art track url m))
   \<and> committed_or_unchanged m (snd (get_or_create_playlist t now m))
   \<and> committed_or_unchanged m (snd (rename_playlist playlist t m))
   \<and> committed_or_unchanged m (snd (edit_playlist_description playlist t m))
   \<and> committed_or_unchanged m (snd (delete_playlist playlist m))
   \<and> committed_or_unchanged m (snd (add_track_to_playlist track p m))
   \<and> committed_or_unchanged m
        (snd (create_and_add_track_to_playlist t artist album duration url p cover m))
   \<and> committed_or_unchanged m (snd (add_track_to_liked_songs track now m))
   \<and> committed_or_unchanged m
        (snd (create_and_add_track_to_liked_songs t artist album duration url cover now m))
   \<and> committed_or_unchanged m (snd (remove_track_from_playlist track p m))
   \<and> committed_or_unchanged m (snd (remove_track_from_liked_songs track now m))
   \<and> committed_or_unchanged m (snd (commit_session m))"
proof -
  have reads: "snd (get_track title i m) = m" "snd (get_playlist t m) = m"
    "snd (playlist_exists t m) = m"
    by (simp_all add: get_track_state get_playlist_def playlist_exists_iff ret_def)
  have some: "query_playlist_by_title ''Liked Songs'' m \<noteq> None \<longrightarrow>
        snd (track_is_liked track now m) = m"
    by (auto simp: track_is_liked_state get_or_create_playlist_found)
  have none: "query_playlist_by_title ''Liked Songs'' m = None \<longrightarrow>
        commits (snd (track_is_liked track now m)) = Suc (commits m)
        \<and> persisted (snd (track_is_liked track now m)) = session (snd (track_is_liked track now m))
        \<and> map pl_title (playlist_tbl (persisted (snd (track_is_liked track now m)))) =
            map pl_title (playlist_tbl (session m)) @ [''Liked Songs'']"
    by (simp add: track_is_liked_state get_or_create_playlist_new session_commit_def
        session_add_playlist_def Playlist_init_def)
  from reads some none show ?thesis
    by (simp only: cu_get_or_create_track cu_add_track_cover_art cu_get_or_create_playlist
        cu_rename_playlist cu_edit_playlist_description cu_delete_playlist
        cu_add_track_to_playlist cu_create_and_add_track_to_playlist
        cu_add_track_to_liked_songs cu_create_and_add_track_to_liked_songs
        cu_remove_track_from_playlist cu_remove_track_from_liked_songs cu_commit_session
        simp_thms)
qed

theorem commit_discipline_witness:
  "query_playlist_by_title ''Liked Songs'' example_manager = None
   \<and> commits (snd (track_is_liked (Some (0, 1)) 10 example_manager)) = Suc (commits example_manager)
   \<and> persisted (snd (track_is_liked (Some (0, 1)) 10 example_manager)) =
       session (snd (track_is_liked (Some (0, 1)) 10 example_manager))
   \<and> query_playlist_by_title ''Liked Songs'' (snd (track_is_liked (Some (0, 1)) 10 example_manager))
       \<noteq> None
   \<and> snd (track_is_liked (Some (0, 1)) 11 (snd (track_is_liked (Some (0, 1)) 10 example_manager))) =
       snd (track_is_liked (Some (0, 1)) 10 example_manager)
   \<and> snd (get_track (Some ''Song A'') None example_manager) = example_manager
   \<and> committed_or_unchanged example_manager
        (snd (add_track_to_liked_songs (Some (0, 1)) 10 example_manager))"
proof -
  let ?m1 = "snd (track_is_liked (Some (0, 1)) 10 example_manager)"
  have q: "query_playlist_by_title ''Liked Songs'' example_manager = None"
    by (simp add: query_playlist_by_title_def example_manager_def PlaylistManager_init_def
        example_db_def mix_def)
  have q1: "query_playlist_by_title ''Liked Songs'' ?m1 \<noteq> None"
    using liked_songs_created_on_reference [of "Some (0, 1)" 10 example_manager]
    by (simp add: playlist_exists_iff)
  note A = commit_discipline [of "Some ''Song A''" None example_manager "''Mix''" "Some (0, 1)" 10]
  note B = commit_discipline [of "Some ''Song A''" None ?m1 "''Mix''" "Some (0, 1)" 11]
  from A q have a: "commits ?m1 = Suc (commits example_manager)"
    and b: "persisted ?m1 = session ?m1"
    by blast+
  from B q1 have c: "snd (track_is_liked (Some (0, 1)) 11 ?m1) = ?m1" by blast
  from A have d: "snd (get_track (Some ''Song A'') None example_manager) = example_manager"
    and e: "committed_or_unchanged example_manager
        (snd (add_track_to_liked_songs (Some (0, 1)) 10 example_manager))"
    by blast+
  from q a b q1 c d e show ?thesis by simp
qed









end
